theory Spec2Isabelle
  imports
    Main
    "HOL-Library.AList"
    "HOL-Library.Sublist"
    "HOL-Library.Char_ord"
    "HOL-Library.List_Lexorder"
begin

section \<open>JavaScript values used by the directory script\<close>

text \<open>
  The script works on JSON rows whose fields are strings or absent. A field read
  \<open>item.f\<close> is a \<open>string option\<close> (\<open>None\<close> for \<open>undefined\<close>); a value is truthy when
  it is a non-empty string. Strings are byte lists: a label outside ASCII is its UTF-8
  bytes, and every comparison the script makes on labels is an equality, which the
  encoding preserves.
\<close>

definition truthy :: "string option \<Rightarrow> bool" where
  "truthy v = (case v of None \<Rightarrow> False | Some s \<Rightarrow> s \<noteq> [])"

text \<open>\<open>a || b\<close> on possibly undefined strings.\<close>

definition jsor :: "string option \<Rightarrow> string option \<Rightarrow> string option" where
  "jsor a b = (if truthy a then a else b)"

text \<open>\<open>a || ''\<close>.\<close>

definition orEmpty :: "string option \<Rightarrow> string" where
  "orEmpty a = (case a of None \<Rightarrow> [] | Some s \<Rightarrow> s)"

text \<open>
  \<open>String.prototype.toLowerCase\<close>, on the ASCII letters (code units 65 to 90); every
  other code unit is kept. This is the script's function on text whose letters outside
  ASCII have no case (the Chinese labels); for cased letters outside ASCII the script
  lower-cases them too and the model does not.
\<close>

definition lowerChar :: "char \<Rightarrow> char" where
  "lowerChar c =
     (if (65::nat) \<le> of_char c \<and> of_char c \<le> (90::nat)
      then char_of (of_char c + (32::nat)) else c)"

definition toLowerCase :: "string \<Rightarrow> string" where
  "toLowerCase s = map lowerChar s"

text \<open>
  \<open>String.prototype.trim\<close>, on the ASCII white space (tab, LF, VT, FF, CR, space). The
  script's function strips the other Unicode white space as well (U+00A0, U+3000,
  U+FEFF, ...), which the model keeps.
\<close>

definition isSpace :: "char \<Rightarrow> bool" where
  "isSpace c = (of_char c = (32::nat) \<or> ((9::nat) \<le> of_char c \<and> of_char c \<le> (13::nat)))"

definition trim :: "string \<Rightarrow> string" where
  "trim s = rev (dropWhile isSpace (rev (dropWhile isSpace s)))"

text \<open>\<open>Array.prototype.join\<close>.\<close>

fun join :: "string \<Rightarrow> string list \<Rightarrow> string" where
  "join sep [] = []"
| "join sep [x] = x"
| "join sep (x # y # ys) = x @ sep @ join sep (y # ys)"

text \<open>\<open>String.prototype.includes\<close>: the argument occurs as a contiguous run.\<close>

definition includes_str :: "string \<Rightarrow> string \<Rightarrow> bool" where
  "includes_str s q = sublist q s"

text \<open>Decimal rendering of an array index inside a template literal.\<close>

fun string_of_nat :: "nat \<Rightarrow> string" where
  "string_of_nat n =
     (if n < 10 then [char_of (48 + n)]
      else string_of_nat (n div 10) @ [char_of (48 + n mod 10)])"

text \<open>
  A plain object keyed by language tag is an association list in insertion order:
  \<open>o[k]\<close> is \<open>map_of o k\<close>, \<open>o[k] = v\<close> is \<open>AList.update k v o\<close> (overwrite in place or
  append), \<open>Object.values(o)\<close> is \<open>map snd o\<close>. A \<open>Set\<close> is a duplicate-free list in
  insertion order and a \<open>Map\<close> an association list in insertion order. The default
  \<open>sort()\<close> of an array of strings is \<open>sort\<close> in the lexicographic order of the code
  units.
\<close>

type_synonym langmap = "(string \<times> string) list"

definition set_add :: "'a \<Rightarrow> 'a list \<Rightarrow> 'a list" where
  "set_add x xs = (if x \<in> set xs then xs else xs @ [x])"

definition map_has :: "('k \<times> 'v) list \<Rightarrow> 'k \<Rightarrow> bool" where
  "map_has m k = (map_of m k \<noteq> None)"

text \<open>The names of the members that every plain object inherits from \<open>Object.prototype\<close>.\<close>

definition objectPrototype :: "string list" where
  "objectPrototype =
     [''constructor'', ''__defineGetter__'', ''__defineSetter__'', ''hasOwnProperty'',
      ''__lookupGetter__'', ''__lookupSetter__'', ''isPrototypeOf'', ''propertyIsEnumerable'',
      ''toString'', ''valueOf'', ''__proto__'', ''toLocaleString'']"

text \<open>
  A property read \<open>o[k]\<close> on a plain object finds the own property \<open>k\<close> and, when there
  is none, the member of that name inherited from \<open>Object.prototype\<close>, which is a
  function or an object and no string; an assignment of a string to \<open>o['__proto__']\<close>
  creates no own property. The language-keyed maps of the model hold own keys with
  string values only, so \<open>map_of\<close> and \<open>AList.update\<close> are the script's read and write
  for every key that names no such member, and for no other key. \<open>ownKeyOnly k\<close> marks
  the keys the model covers; a result about a read under a language tag assumes it of
  that tag.
\<close>

definition ownKeyOnly :: "string \<Rightarrow> bool" where
  "ownKeyOnly k = (k \<notin> set objectPrototype)"

section \<open>Raw records and entities\<close>

record raw_record =
  doc_id :: "string option"
  item_lang :: "string option"
  doc_name :: "string option"
  doc_address :: "string option"
  doc_tel_A :: "string option"
  doc_cat_name :: "string option"
  doc_wh :: "string option"
  doc_remark :: "string option"
  area_name :: "string option"
  district_name :: "string option"
  city_name :: "string option"
  doc_lat :: "string option"
  doc_long :: "string option"
  item_cta_link :: "string option"

text \<open>
  The doctor object of the current script. \<open>baseId\<close> exists in per-row mode only.
  The object has no \<open>specialty\<close>, \<open>city\<close>, \<open>district\<close> or \<open>area\<close> property, so the reads
  \<open>d.specialty\<close>, \<open>d.city\<close>, \<open>d.district\<close>, \<open>d.area\<close> of the script are \<open>undefined\<close>.
\<close>

record entity =
  ident :: string
  baseId :: "string option"
  names :: langmap
  addresses :: langmap
  address :: string
  phones :: langmap
  specialties :: langmap
  openings :: langmap
  remarks :: langmap
  areas :: langmap
  districts :: langmap
  cities :: langmap
  lat :: string
  lng :: string
  cta_link :: string

section \<open>Normalizer\<close>

definition idOf :: "raw_record \<Rightarrow> string" where
  "idOf item = orEmpty (doc_id item)"

definition langOf :: "raw_record \<Rightarrow> string" where
  "langOf item = (if truthy (item_lang item) then the (item_lang item) else ''en'')"

subsection \<open>Grouped mode: \<open>mergeByDocId\<close>\<close>

definition newDoc :: "string \<Rightarrow> raw_record \<Rightarrow> entity" where
  "newDoc i item =
     \<lparr> ident = i, baseId = None, names = [], addresses = [],
       address = orEmpty (doc_address item), phones = [], specialties = [],
       openings = [], remarks = [], areas = [], districts = [], cities = [],
       lat = orEmpty (doc_lat item), lng = orEmpty (doc_long item),
       cta_link = orEmpty (item_cta_link item) \<rparr>"

text \<open>\<open>if (item.f) doc.fs[lang] = item.f\<close>.\<close>

definition put_if :: "string \<Rightarrow> string option \<Rightarrow> langmap \<Rightarrow> langmap" where
  "put_if l v m = (if truthy v then AList.update l (the v) m else m)"

text \<open>
  The writes of one row into the maps of its doctor. The read \<open>doc.names[lang]\<close> inside
  \<open>item.doc_name || doc.names[lang] || ''\<close> is an own-key read: for a row whose language
  tag is not \<open>ownKeyOnly\<close> and that has no name, the script stores the inherited member
  where the model stores the empty string.
\<close>

definition populate :: "raw_record \<Rightarrow> entity \<Rightarrow> entity" where
  "populate item doc =
     (let l = langOf item in
      doc\<lparr> names := AList.update l (orEmpty (jsor (doc_name item) (map_of (names doc) l))) (names doc),
           addresses := put_if l (doc_address item) (addresses doc),
           phones := put_if l (doc_tel_A item) (phones doc),
           specialties := put_if l (doc_cat_name item) (specialties doc),
           openings := put_if l (doc_wh item) (openings doc),
           remarks := put_if l (doc_remark item) (remarks doc),
           areas := put_if l (area_name item) (areas doc),
           districts := put_if l (district_name item) (districts doc),
           cities := put_if l (city_name item) (cities doc) \<rparr>)"

text \<open>\<open>if (!doc.lat && item.doc_lat) doc.lat = item.doc_lat\<close>, and the same for \<open>lng\<close>.\<close>

definition keepLatLng :: "raw_record \<Rightarrow> entity \<Rightarrow> entity" where
  "keepLatLng item doc =
     (let d1 = (if lat doc = [] \<and> truthy (doc_lat item) then doc\<lparr>lat := the (doc_lat item)\<rparr> else doc)
      in (if lng d1 = [] \<and> truthy (doc_long item) then d1\<lparr>lng := the (doc_long item)\<rparr> else d1))"

text \<open>One pass of the \<open>forEach\<close> body over the \<open>Map\<close> from identifier to doctor.\<close>

definition mergeStep :: "(string \<times> entity) list \<Rightarrow> raw_record \<Rightarrow> (string \<times> entity) list" where
  "mergeStep m item =
     (let i = idOf item;
          m1 = (if \<not> map_has m i then AList.update i (newDoc i item) m else m);
          doc = the (map_of m1 i)
      in AList.update i (keepLatLng item (populate item doc)) m1)"

definition mergeMap :: "raw_record list \<Rightarrow> (string \<times> entity) list" where
  "mergeMap data = foldl mergeStep [] data"

definition mergeByDocId :: "raw_record list \<Rightarrow> entity list" where
  "mergeByDocId data = map snd (mergeMap data)"

subsection \<open>Per-row mode: \<open>normalizePerRow\<close>\<close>

definition rowEntity :: "nat \<Rightarrow> raw_record \<Rightarrow> entity" where
  "rowEntity idx item =
     (let l = langOf item in
      \<lparr> ident = idOf item @ ''_'' @ l @ ''_'' @ string_of_nat idx,
        baseId = Some (idOf item),
        names = [(l, orEmpty (doc_name item))],
        addresses = [(l, orEmpty (doc_address item))],
        address = orEmpty (doc_address item),
        phones = [(l, orEmpty (doc_tel_A item))],
        specialties = [(l, orEmpty (doc_cat_name item))],
        openings = [(l, orEmpty (doc_wh item))],
        remarks = [(l, orEmpty (doc_remark item))],
        areas = [(l, orEmpty (area_name item))],
        districts = [(l, orEmpty (district_name item))],
        cities = [(l, orEmpty (city_name item))],
        lat = orEmpty (doc_lat item), lng = orEmpty (doc_long item),
        cta_link = orEmpty (item_cta_link item) \<rparr>)"

definition normalizePerRow :: "raw_record list \<Rightarrow> entity list" where
  "normalizePerRow data = map (\<lambda>(idx, item). rowEntity idx item) (List.enumerate 0 data)"

text \<open>\<open>doctors = showAllRecords ? normalizePerRow(rawData) : mergeByDocId(rawData)\<close>.\<close>

definition normalize :: "bool \<Rightarrow> raw_record list \<Rightarrow> entity list" where
  "normalize showAllRecords rawData =
     (if showAllRecords then normalizePerRow rawData else mergeByDocId rawData)"

section \<open>Label resolution: \<open>tData\<close>\<close>

datatype field = Name | Address | Specialty | Opening | Area | District | City | Phone | Remark

text \<open>The \<open>plural\<close> table followed by the property read \<open>doc[key]\<close>.\<close>

fun plural :: "field \<Rightarrow> entity \<Rightarrow> langmap" where
  "plural Name d = names d"
| "plural Address d = addresses d"
| "plural Specialty d = specialties d"
| "plural Opening d = openings d"
| "plural Area d = areas d"
| "plural District d = districts d"
| "plural City d = cities d"
| "plural Phone d = phones d"
| "plural Remark d = remarks d"

text \<open>
  \<open>tData(doc, field, lang)\<close>; the first argument is \<open>langSelect.value\<close>, read when the
  \<open>lang\<close> argument is empty or omitted. The reads \<open>map[lang]\<close>, \<open>map['zh-HK']\<close>,
  \<open>map['zh-CN']\<close>, \<open>map['en']\<close> are own-key reads: the three fixed tags name no member
  of \<open>Object.prototype\<close>, and for a requested tag that is not \<open>ownKeyOnly\<close> and is no
  own key the script returns the inherited member where the model falls back.
\<close>

definition tData :: "string \<Rightarrow> entity \<Rightarrow> field \<Rightarrow> string \<Rightarrow> string" where
  "tData langSelect doc f lang0 =
     (let lang = (if lang0 \<noteq> [] then lang0 else if langSelect \<noteq> [] then langSelect else ''en'');
          m = map_of (plural f doc)
      in orEmpty (jsor (m lang) (jsor (m ''zh-HK'') (jsor (m ''zh-CN'') (m ''en'')))))"

section \<open>Telephone links: \<open>formatPhoneForTel\<close>\<close>

text \<open>The character class \<open>[+0-9]\<close>.\<close>

definition isDigit :: "char \<Rightarrow> bool" where
  "isDigit c = ((48::nat) \<le> of_char c \<and> of_char c \<le> (57::nat))"

definition telChar :: "char \<Rightarrow> bool" where
  "telChar c = (c = CHR ''+'' \<or> isDigit c)"

text \<open>\<open>phone.replace(/[^+0-9]/g, '')\<close>: every code unit outside the class is dropped.\<close>

fun replace_non_tel :: "string \<Rightarrow> string" where
  "replace_non_tel [] = []"
| "replace_non_tel (c # cs) =
     (if telChar c then c # replace_non_tel cs else replace_non_tel cs)"

definition formatPhoneForTel :: "string \<Rightarrow> string" where
  "formatPhoneForTel phone = (if phone = [] then [] else replace_non_tel phone)"

section \<open>View state\<close>

text \<open>
  A \<open>select\<close> element is the list of its option values and its current \<open>value\<close>; the
  display text of an option is presentation and is left out. The three DOM operations
  the script uses follow the HTML standard for a single-choice drop-down: assigning the
  one-option markup \<open><option value="">...</option>\<close> to \<open>innerHTML\<close> leaves that option
  selected, so \<open>value\<close> is the empty string; \<open>appendChild\<close> of a new option keeps the
  selected option (the new option is selected only when it is the first one); assigning
  \<open>value\<close>, or the user picking an entry, selects the option with that value, and no
  option (\<open>value\<close> empty) when there is none.
\<close>

record select =
  sel_options :: "string list"
  sel_value :: string

definition placeholder_only :: select where
  "placeholder_only = \<lparr> sel_options = [[]], sel_value = [] \<rparr>"

definition appendChild :: "select \<Rightarrow> string \<Rightarrow> select" where
  "appendChild s v =
     \<lparr> sel_options = sel_options s @ [v],
       sel_value = (if sel_options s = [] then v else sel_value s) \<rparr>"

definition set_value :: "string \<Rightarrow> select \<Rightarrow> select" where
  "set_value v s = s\<lparr> sel_value := (if v \<in> set (sel_options s) then v else []) \<rparr>"

type_synonym cities_map = "(string \<times> (string \<times> string list) list) list"

text \<open>
  The globals of the script: the five controls, \<open>doctors\<close>, \<open>window.__citiesMap\<close>
  (\<open>None\<close> until \<open>populateFilters\<close> has run) and the list last handed to
  \<open>renderDoctors\<close>.
\<close>

record view =
  searchInput :: string
  specialtySelect :: select
  citySelect :: select
  districtSelect :: select
  areaSelect :: select
  langSelect :: string
  doctors :: "entity list"
  citiesMap :: "cities_map option"
  rendered :: "entity list"

section \<open>Filter engine: \<open>applyFilters\<close>\<close>

text \<open>
  \<open>Object.values(m).map(x => (x||'').toString().toLowerCase()).some(c => c === sel.toLowerCase())\<close>
\<close>

definition some_value_is :: "langmap \<Rightarrow> string \<Rightarrow> bool" where
  "some_value_is m sel =
     list_ex (\<lambda>c. c = toLowerCase sel) (map toLowerCase (map snd m))"

text \<open>The callback of \<open>doctors.filter\<close>, with its five captured constants.\<close>

definition passes :: "string \<Rightarrow> string \<Rightarrow> string \<Rightarrow> string \<Rightarrow> string \<Rightarrow> entity \<Rightarrow> bool" where
  "passes q specialty city district area d =
     (let allNames = toLowerCase (join '' '' (map snd (names d))) in
      if q \<noteq> [] \<and> \<not> includes_str allNames q then False
      else if specialty \<noteq> [] \<and> \<not> some_value_is (specialties d) specialty then False
      else if city \<noteq> [] \<and> \<not> some_value_is (cities d) city then False
      else if district \<noteq> [] \<and> \<not> some_value_is (districts d) district then False
      else if area \<noteq> [] \<and> \<not> some_value_is (areas d) area then False
      else True)"

definition applyFilters :: "view \<Rightarrow> view" where
  "applyFilters st =
     (let q = toLowerCase (trim (searchInput st));
          specialty = sel_value (specialtySelect st);
          city = sel_value (citySelect st);
          district = sel_value (districtSelect st);
          area = sel_value (areaSelect st)
      in st\<lparr> rendered := filter (passes q specialty city district area) (doctors st) \<rparr>)"

section \<open>Vocabulary builder\<close>

text \<open>\<open>(langSelect && langSelect.value) || 'en'\<close>.\<close>

definition activeLang :: "view \<Rightarrow> string" where
  "activeLang st = (if langSelect st \<noteq> [] then langSelect st else ''en'')"

text \<open>
  The body of the \<open>forEach\<close> in \<open>populateFilters\<close>, on the pair of the \<open>specialties\<close> set
  and the \<open>cities\<close> map. \<open>tData(d, f, lang) || d.f || ''\<close> is \<open>tData\<close> itself, the
  property \<open>d.f\<close> being undefined. The argument \<open>lang\<close> is never empty here, so
  \<open>tData\<close> does not read \<open>langSelect.value\<close>, and \<open>lang\<close> is passed in its place.
\<close>

definition vocabStep :: "string \<Rightarrow> string list \<times> cities_map \<Rightarrow> entity \<Rightarrow> string list \<times> cities_map" where
  "vocabStep lang acc d =
     (let spec = tData lang d Specialty lang;
          specs = (if spec \<noteq> [] then set_add spec (fst acc) else fst acc);
          cityLabel = tData lang d City lang;
          districtLabel = tData lang d District lang;
          areaLabel = tData lang d Area lang;
          c1 = (if \<not> map_has (snd acc) cityLabel then AList.update cityLabel [] (snd acc) else snd acc);
          districtMap = the (map_of c1 cityLabel);
          dm1 = (if \<not> map_has districtMap districtLabel
                 then AList.update districtLabel [] districtMap else districtMap);
          dm2 = (if areaLabel \<noteq> []
                 then AList.update districtLabel (set_add areaLabel (the (map_of dm1 districtLabel))) dm1
                 else dm1)
      in (specs, AList.update cityLabel dm2 c1))"

definition vocabulary :: "string \<Rightarrow> entity list \<Rightarrow> string list \<times> cities_map" where
  "vocabulary lang ds = foldl (vocabStep lang) ([], []) ds"

definition populateFilters :: "view \<Rightarrow> view" where
  "populateFilters st =
     (let v = vocabulary (activeLang st) (doctors st) in
      st\<lparr> specialtySelect := foldl appendChild (specialtySelect st) (sort (fst v)),
          citySelect := foldl appendChild (citySelect st) (sort (map fst (snd v))),
          citiesMap := Some (snd v) \<rparr>)"

text \<open>
  \<open>city in Object.fromEntries(window.__citiesMap)\<close>: an own key of the object built from
  the map, or a property inherited from \<open>Object.prototype\<close>.
\<close>

definition in_cities :: "string \<Rightarrow> cities_map option \<Rightarrow> bool" where
  "in_cities city cm =
     (case cm of None \<Rightarrow> False
      | Some m \<Rightarrow> map_has m city \<or> city \<in> set objectPrototype)"

text \<open>\<open>window.__citiesMap.get(city) || new Map()\<close>.\<close>

definition districtMapOf :: "string \<Rightarrow> cities_map option \<Rightarrow> (string \<times> string list) list" where
  "districtMapOf city cm =
     (case cm of None \<Rightarrow> []
      | Some m \<Rightarrow> (case map_of m city of None \<Rightarrow> [] | Some dm \<Rightarrow> dm))"

definition updateDistrictsForCity :: "string \<Rightarrow> view \<Rightarrow> view" where
  "updateDistrictsForCity city st =
     (let st1 = st\<lparr> districtSelect := placeholder_only, areaSelect := placeholder_only \<rparr>;
          lang = activeLang st1
      in if in_cities city (citiesMap st1)
         then st1\<lparr> districtSelect :=
                     foldl appendChild (districtSelect st1)
                       (sort (map fst (districtMapOf city (citiesMap st1)))) \<rparr>
         else
           (let ds = foldl (\<lambda>acc d.
                        let c = tData lang d City lang;
                            districtLabel = tData lang d District lang
                        in if (city = [] \<or> c = city) \<and> districtLabel \<noteq> []
                           then set_add districtLabel acc else acc) [] (doctors st1)
            in st1\<lparr> districtSelect := foldl appendChild (districtSelect st1) (sort ds) \<rparr>))"

definition updateAreasForDistrict :: "string \<Rightarrow> string \<Rightarrow> view \<Rightarrow> view" where
  "updateAreasForDistrict city district st =
     (let st1 = st\<lparr> areaSelect := placeholder_only \<rparr>;
          lang = activeLang st1
      in if in_cities city (citiesMap st1)
         then
           (let areaSet = (case map_of (districtMapOf city (citiesMap st1)) district of
                             None \<Rightarrow> [] | Some a \<Rightarrow> a)
            in st1\<lparr> areaSelect := foldl appendChild (areaSelect st1) (sort areaSet) \<rparr>)
         else
           (let as = foldl (\<lambda>acc d.
                        let c = tData lang d City lang;
                            districtLabel = tData lang d District lang;
                            areaLabel = tData lang d Area lang
                        in if (city = [] \<or> c = city) \<and> (district = [] \<or> districtLabel = district)
                              \<and> areaLabel \<noteq> []
                           then set_add areaLabel acc else acc) [] (doctors st1)
            in st1\<lparr> areaSelect := foldl appendChild (areaSelect st1) (sort as) \<rparr>))"

section \<open>Change listeners of the dependent selectors\<close>

text \<open>
  The user picks the entry \<open>v\<close> of the city (district) selector, which sets its value, and
  the \<open>change\<close> listener runs with \<open>e.target.value\<close> read back from the selector.
\<close>

definition cityChange :: "string \<Rightarrow> view \<Rightarrow> view" where
  "cityChange v st =
     (let st0 = st\<lparr> citySelect := set_value v (citySelect st) \<rparr>;
          x = sel_value (citySelect st0)
      in applyFilters (updateAreasForDistrict x [] (updateDistrictsForCity x st0)))"

definition districtChange :: "string \<Rightarrow> view \<Rightarrow> view" where
  "districtChange v st =
     (let st0 = st\<lparr> districtSelect := set_value v (districtSelect st) \<rparr>;
          x = sel_value (districtSelect st0)
      in applyFilters (updateAreasForDistrict (sel_value (citySelect st0)) x st0))"

section \<open>The earlier copy of the script (\<open>src/script.js\<close>)\<close>

text \<open>
  \<open>src/script.js\<close> is an earlier copy of the same program. Its doctor object has no
  \<open>addresses\<close> and no \<open>remarks\<close> map, its identifier is \<open>item.doc_id\<close> as read (possibly
  undefined), and its \<open>applyFilters\<close> compares each selection with the label that
  \<open>tData\<close> resolves in the active language.
\<close>

record script_doctor =
  s_id :: "string option"
  s_names :: langmap
  s_address :: string
  s_phones :: langmap
  s_specialties :: langmap
  s_openings :: langmap
  s_areas :: langmap
  s_districts :: langmap
  s_cities :: langmap
  s_lat :: string
  s_lng :: string
  s_cta_link :: string

definition script_newDoc :: "string option \<Rightarrow> raw_record \<Rightarrow> script_doctor" where
  "script_newDoc i item =
     \<lparr> s_id = i, s_names = [], s_address = orEmpty (doc_address item), s_phones = [],
       s_specialties = [], s_openings = [], s_areas = [], s_districts = [], s_cities = [],
       s_lat = orEmpty (doc_lat item), s_lng = orEmpty (doc_long item),
       s_cta_link = orEmpty (item_cta_link item) \<rparr>"

definition script_mergeStep ::
    "(string option \<times> script_doctor) list \<Rightarrow> raw_record \<Rightarrow> (string option \<times> script_doctor) list" where
  "script_mergeStep m item =
     (let i = doc_id item;
          m1 = (if \<not> map_has m i then AList.update i (script_newDoc i item) m else m);
          doc = the (map_of m1 i);
          l = langOf item
      in AList.update i
           (doc\<lparr> s_names := AList.update l (orEmpty (jsor (doc_name item) (map_of (s_names doc) l))) (s_names doc),
                 s_specialties := put_if l (doc_cat_name item) (s_specialties doc),
                 s_openings := put_if l (doc_wh item) (s_openings doc),
                 s_areas := put_if l (area_name item) (s_areas doc),
                 s_districts := put_if l (district_name item) (s_districts doc),
                 s_cities := put_if l (city_name item) (s_cities doc),
                 s_phones := put_if l (doc_tel_A item) (s_phones doc) \<rparr>) m1)"

definition script_mergeByDocId :: "raw_record list \<Rightarrow> script_doctor list" where
  "script_mergeByDocId data = map snd (foldl script_mergeStep [] data)"

text \<open>
  The \<open>plural\<close> table of this copy lacks \<open>address\<close> and \<open>remark\<close>; their keys
  \<open>addresss\<close> and \<open>remarks\<close> name no property of the object, so the map is \<open>{}\<close>.
  The reads of \<open>tData\<close> and of \<open>doc.names[lang]\<close> are own-key reads here as well.
\<close>

fun script_plural :: "field \<Rightarrow> script_doctor \<Rightarrow> langmap" where
  "script_plural Name d = s_names d"
| "script_plural Address d = []"
| "script_plural Specialty d = s_specialties d"
| "script_plural Opening d = s_openings d"
| "script_plural Area d = s_areas d"
| "script_plural District d = s_districts d"
| "script_plural City d = s_cities d"
| "script_plural Phone d = s_phones d"
| "script_plural Remark d = []"

definition script_tData :: "string \<Rightarrow> script_doctor \<Rightarrow> field \<Rightarrow> string \<Rightarrow> string" where
  "script_tData langSel doc f lang0 =
     (let lang = (if lang0 \<noteq> [] then lang0 else if langSel \<noteq> [] then langSel else ''en'');
          m = map_of (script_plural f doc)
      in orEmpty (jsor (m lang) (jsor (m ''zh-HK'') (jsor (m ''zh-CN'') (m ''en'')))))"

text \<open>The callback of \<open>doctors.filter\<close> in this copy; \<open>langSel\<close> is \<open>langSelect.value\<close>.\<close>

definition script_passes ::
    "string \<Rightarrow> string \<Rightarrow> string \<Rightarrow> string \<Rightarrow> string \<Rightarrow> string \<Rightarrow> script_doctor \<Rightarrow> bool" where
  "script_passes langSel q specialty city district area d =
     (let allNames = toLowerCase (join '' '' (map snd (s_names d))) in
      if q \<noteq> [] \<and> \<not> includes_str allNames q then False
      else
        (let lang = (if langSel \<noteq> [] then langSel else ''en'');
             docSpec = script_tData langSel d Specialty lang;
             docCity = script_tData langSel d City lang;
             docDistrict = script_tData langSel d District lang;
             docArea = script_tData langSel d Area lang
         in if specialty \<noteq> [] \<and> docSpec \<noteq> specialty then False
            else if city \<noteq> [] \<and> docCity \<noteq> city then False
            else if district \<noteq> [] \<and> docDistrict \<noteq> district then False
            else if area \<noteq> [] \<and> docArea \<noteq> area then False
            else True))"

text \<open>
  \<open>applyFilters\<close> of this copy, as a function of the control values it reads; the result
  is the list handed to \<open>renderDoctors\<close>.
\<close>

definition script_applyFilters ::
    "string \<Rightarrow> string \<Rightarrow> string \<Rightarrow> string \<Rightarrow> string \<Rightarrow> string \<Rightarrow> script_doctor list \<Rightarrow> script_doctor list" where
  "script_applyFilters langSel search specialty city district area ds =
     filter (script_passes langSel (toLowerCase (trim search)) specialty city district area) ds"

section \<open>Sample rows\<close>

definition blank :: raw_record where
  "blank =
     \<lparr> doc_id = None, item_lang = None, doc_name = None, doc_address = None,
       doc_tel_A = None, doc_cat_name = None, doc_wh = None, doc_remark = None,
       area_name = None, district_name = None, city_name = None, doc_lat = None,
       doc_long = None, item_cta_link = None \<rparr>"

text \<open>
  The two rows of the specification's scenario; \<open>heung_gong\<close> and \<open>chan\<close> are the UTF-8
  encodings of the Chinese city label and name.
\<close>

definition heung_gong :: string where
  "heung_gong = [CHR 0xE9, CHR 0xA6, CHR 0x99, CHR 0xE6, CHR 0xB8, CHR 0xAF]"

definition chan :: string where
  "chan = [CHR 0xE9, CHR 0x99, CHR 0xB3]"

definition tan_rows :: "raw_record list" where
  "tan_rows =
     [blank\<lparr> doc_id := Some ''1'', item_lang := Some ''en'', doc_name := Some ''Tan'',
             city_name := Some ''Hong Kong'' \<rparr>,
      blank\<lparr> doc_id := Some ''1'', item_lang := Some ''zh-HK'', doc_name := Some chan,
             city_name := Some heung_gong \<rparr>]"

text \<open>The scenario's doctor and a second doctor with an English row only.\<close>

definition mixed_rows :: "raw_record list" where
  "mixed_rows =
     tan_rows @
     [blank\<lparr> doc_id := Some ''2'', item_lang := Some ''en'', doc_name := Some ''Ho'',
             city_name := Some ''Hong Kong'' \<rparr>]"

text \<open>Two rows of one doctor, the English one without a name.\<close>

definition nameless_rows :: "raw_record list" where
  "nameless_rows =
     [blank\<lparr> doc_id := Some ''1'', item_lang := Some ''en'' \<rparr>,
      blank\<lparr> doc_id := Some ''1'', item_lang := Some ''zh-HK'', doc_name := Some chan \<rparr>]"

section \<open>The specification's wording, as definitions\<close>

text \<open>
  Follows the specification, not the code: a telephone link value is a run of digits,
  optionally preceded by one leading plus sign.
\<close>

fun spec_tel_shape :: "string \<Rightarrow> bool" where
  "spec_tel_shape [] = True"
| "spec_tel_shape (c # cs) = ((c = CHR ''+'' \<or> isDigit c) \<and> list_all isDigit cs)"

text \<open>
  Follows the specification, not the code: the value stored under the requested key if
  the key is present, else the value under the first present key among \<open>zh-HK\<close>,
  \<open>zh-CN\<close>, \<open>en\<close>, else the empty string.
\<close>

definition spec_tData :: "langmap \<Rightarrow> string \<Rightarrow> string" where
  "spec_tData m lang =
     (case map_of m lang of Some v \<Rightarrow> v
      | None \<Rightarrow> (case map_of m ''zh-HK'' of Some v \<Rightarrow> v
         | None \<Rightarrow> (case map_of m ''zh-CN'' of Some v \<Rightarrow> v
            | None \<Rightarrow> (case map_of m ''en'' of Some v \<Rightarrow> v | None \<Rightarrow> []))))"

section \<open>Sample view states\<close>

text \<open>The page before \<open>populateFilters\<close> has run: every selector holds its placeholder.\<close>

definition start_view :: "string \<Rightarrow> entity list \<Rightarrow> view" where
  "start_view l ds =
     \<lparr> searchInput = [], specialtySelect = placeholder_only, citySelect = placeholder_only,
       districtSelect = placeholder_only, areaSelect = placeholder_only, langSelect = l,
       doctors = ds, citiesMap = None, rendered = [] \<rparr>"

text \<open>
  The scenario of the specification: display language \<open>zh-HK\<close>, the city selection
  \<open>Hong Kong\<close> supplied directly.
\<close>

definition tan_view :: view where
  "tan_view =
     (start_view ''zh-HK'' (mergeByDocId tan_rows))
       \<lparr> citySelect := \<lparr> sel_options = [[], heung_gong], sel_value = ''Hong Kong'' \<rparr> \<rparr>"

section \<open>Provenance of normalized values\<close>

text \<open>The first row of the input that bears the identifier \<open>k\<close>.\<close>

definition first_row :: "string \<Rightarrow> raw_record list \<Rightarrow> raw_record option" where
  "first_row k data = find (\<lambda>it. idOf it = k) data"

text \<open>
  The value of field \<open>fld\<close> in the first row that bears the identifier \<open>k\<close> and has
  that field non-empty; the empty string when there is no such row.
\<close>

definition first_value :: "(raw_record \<Rightarrow> string option) \<Rightarrow> string \<Rightarrow> raw_record list \<Rightarrow> string" where
  "first_value fld k data =
     (case find (\<lambda>it. idOf it = k \<and> truthy (fld it)) data of
        None \<Rightarrow> [] | Some it \<Rightarrow> the (fld it))"

text \<open>
  The entry \<open>lv\<close> (language, value) is the field \<open>fld\<close> of some input row with identifier
  \<open>k\<close> and that language.
\<close>

definition sourced :: "raw_record list \<Rightarrow> string \<Rightarrow> (raw_record \<Rightarrow> string option) \<Rightarrow> string \<times> string \<Rightarrow> bool" where
  "sourced data k fld lv =
     list_ex (\<lambda>it. idOf it = k \<and> langOf it = fst lv \<and> fld it = Some (snd lv)) data"

definition all_sourced :: "raw_record list \<Rightarrow> string \<Rightarrow> (raw_record \<Rightarrow> string option) \<Rightarrow> langmap \<Rightarrow> bool" where
  "all_sourced data k fld m = list_all (\<lambda>lv. snd lv \<noteq> [] \<and> sourced data k fld lv) m"

definition all_sourced_or_empty :: "raw_record list \<Rightarrow> string \<Rightarrow> (raw_record \<Rightarrow> string option) \<Rightarrow> langmap \<Rightarrow> bool" where
  "all_sourced_or_empty data k fld m = list_all (\<lambda>lv. snd lv = [] \<or> sourced data k fld lv) m"

text \<open>Two rows of one doctor; only the second carries coordinates.\<close>

definition late_coords_rows :: "raw_record list" where
  "late_coords_rows =
     [blank\<lparr> doc_id := Some ''7'', item_lang := Some ''en'', doc_name := Some ''Lee'',
             doc_address := Some ''1 Queen's Road'', item_cta_link := Some ''https://a.example'' \<rparr>,
      blank\<lparr> doc_id := Some ''7'', item_lang := Some ''zh-HK'', doc_address := Some ''2 Des Voeux Road'',
             doc_lat := Some ''22.28'', doc_long := Some ''114.15'',
             item_cta_link := Some ''https://b.example'' \<rparr>]"

text \<open>
  Follows the specification, not the code: a localizable map holds non-empty values
  only.
\<close>

definition spec_nonempty_values :: "langmap \<Rightarrow> bool" where
  "spec_nonempty_values m = list_all (\<lambda>lv. snd lv \<noteq> []) m"

text \<open>One English-only row, as a per-row entity it has no value under \<open>zh-HK\<close>.\<close>

definition cardio_rows :: "raw_record list" where
  "cardio_rows =
     [blank\<lparr> doc_id := Some ''3'', item_lang := Some ''en'', doc_name := Some ''Wong'',
             doc_cat_name := Some ''Cardiology'', city_name := Some ''Hong Kong'',
             district_name := Some ''Central'', area_name := Some ''Admiralty'' \<rparr>]"

section \<open>Telephone links\<close>

lemma replace_non_tel_filter: "replace_non_tel p = filter telChar p"
  by (induction p) simp_all

text \<open>
  C6, as stated, fails: \<open>formatPhoneForTel\<close> removes every character outside \<open>[+0-9]\<close> and
  nothing else, so a plus sign survives wherever it stands. On the phone text below the
  output has a plus sign in the middle and is not of the shape "digits after at most one
  leading plus".
\<close>

theorem formatPhoneForTel_counterexample:
  "formatPhoneForTel ''2345 6789 / +852 9123'' = ''23456789+8529123'' \<and>
   \<not> spec_tel_shape (formatPhoneForTel ''2345 6789 / +852 9123'')"
  by code_simp

text \<open>
  C6, amended: the telephone link value is the phone text with every character other
  than a digit or a plus sign removed, the kept characters in their order; the output
  consists of digits and plus signs only, and a plus sign is kept at every position.
\<close>

theorem formatPhoneForTel_keeps_every_plus:
  "formatPhoneForTel p = filter telChar p \<and>
   list_all telChar (formatPhoneForTel p) \<and>
   formatPhoneForTel (a @ CHR ''+'' # b) = formatPhoneForTel a @ CHR ''+'' # formatPhoneForTel b"
  by (simp add: formatPhoneForTel_def replace_non_tel_filter telChar_def list_all_iff)

section \<open>Label resolution\<close>

text \<open>
  C9, as stated, fails where the requested key is present with the empty string: grouped
  normalization of two rows of one doctor, the English row without a name, stores the
  empty string under \<open>en\<close>; the specification's resolution returns that stored value,
  \<open>tData\<close> returns the Chinese name. It also fails for an empty requested language,
  which \<open>tData\<close> replaces by the display language before any lookup.
\<close>

theorem tData_counterexample:
  "names (hd (mergeByDocId nameless_rows)) = [(''en'', []), (''zh-HK'', chan)] \<and>
   spec_tData (names (hd (mergeByDocId nameless_rows))) ''en'' = [] \<and>
   tData ''en'' (hd (mergeByDocId nameless_rows)) Name ''en'' = chan \<and>
   spec_tData (cities (hd (mergeByDocId tan_rows))) [] = heung_gong \<and>
   tData ''en'' (hd (mergeByDocId tan_rows)) City [] = ''Hong Kong''"
  by code_simp

lemma tData_chain:
  "lang \<noteq> [] \<Longrightarrow>
     tData ls doc f lang =
       (if truthy (map_of (plural f doc) lang) then the (map_of (plural f doc) lang)
        else if truthy (map_of (plural f doc) ''zh-HK'') then the (map_of (plural f doc) ''zh-HK'')
        else if truthy (map_of (plural f doc) ''zh-CN'') then the (map_of (plural f doc) ''zh-CN'')
        else if truthy (map_of (plural f doc) ''en'') then the (map_of (plural f doc) ''en'')
        else [])"
  by (auto simp: tData_def jsor_def orEmpty_def truthy_def Let_def split: option.splits)

text \<open>
  C9, amended: for every entity, attribute and non-empty requested language that names
  no member inherited from \<open>Object.prototype\<close>, \<open>tData\<close> returns the value stored under
  the requested language if it is present and non-empty; otherwise the first present
  and non-empty value under \<open>zh-HK\<close>, \<open>zh-CN\<close>, \<open>en\<close>, in this order; and the empty
  string if there is none. An empty requested language stands for the display language,
  and for \<open>en\<close> when that is empty too.
\<close>

theorem tData_resolution:
  assumes "lang \<noteq> []" and "ownKeyOnly lang"
  shows "(truthy (map_of (plural f doc) lang) \<longrightarrow>
            tData ls doc f lang = the (map_of (plural f doc) lang)) \<and>
         (\<not> truthy (map_of (plural f doc) lang) \<and> truthy (map_of (plural f doc) ''zh-HK'') \<longrightarrow>
            tData ls doc f lang = the (map_of (plural f doc) ''zh-HK'')) \<and>
         (\<not> truthy (map_of (plural f doc) lang) \<and> \<not> truthy (map_of (plural f doc) ''zh-HK'') \<and>
          truthy (map_of (plural f doc) ''zh-CN'') \<longrightarrow>
            tData ls doc f lang = the (map_of (plural f doc) ''zh-CN'')) \<and>
         (\<not> truthy (map_of (plural f doc) lang) \<and> \<not> truthy (map_of (plural f doc) ''zh-HK'') \<and>
          \<not> truthy (map_of (plural f doc) ''zh-CN'') \<and> truthy (map_of (plural f doc) ''en'') \<longrightarrow>
            tData ls doc f lang = the (map_of (plural f doc) ''en'')) \<and>
         (\<not> truthy (map_of (plural f doc) lang) \<and> \<not> truthy (map_of (plural f doc) ''zh-HK'') \<and>
          \<not> truthy (map_of (plural f doc) ''zh-CN'') \<and> \<not> truthy (map_of (plural f doc) ''en'') \<longrightarrow>
            tData ls doc f lang = []) \<and>
         tData ls doc f [] = tData ls doc f (if ls \<noteq> [] then ls else ''en'')"
  using assms
  by (auto simp: tData_def jsor_def orEmpty_def truthy_def Let_def split: option.splits)

theorem tData_resolution_witness:
  "''zh-CN'' \<noteq> [] \<and> ownKeyOnly ''zh-CN'' \<and>
   \<not> truthy (map_of (plural City (hd (mergeByDocId tan_rows))) ''zh-CN'') \<and>
   truthy (map_of (plural City (hd (mergeByDocId tan_rows))) ''zh-HK'') \<and>
   tData ''en'' (hd (mergeByDocId tan_rows)) City ''zh-CN'' = heung_gong"
proof -
  have a: "''zh-CN'' \<noteq> []" by simp
  have o: "ownKeyOnly ''zh-CN''" by code_simp
  have b: "\<not> truthy (map_of (plural City (hd (mergeByDocId tan_rows))) ''zh-CN'')" by code_simp
  have c: "truthy (map_of (plural City (hd (mergeByDocId tan_rows))) ''zh-HK'')" by code_simp
  have d: "the (map_of (plural City (hd (mergeByDocId tan_rows))) ''zh-HK'') = heung_gong"
    by code_simp
  from tData_resolution [OF a o, of City "hd (mergeByDocId tan_rows)" "''en''"] o b c d
  show ?thesis by simp
qed

lemma normalizePerRow_nth:
  "i < length data \<Longrightarrow> normalizePerRow data ! i = rowEntity i (data ! i)"
  by (simp add: normalizePerRow_def nth_enumerate_eq)

lemma rowEntity_single_key:
  "\<exists>v. plural f (rowEntity i r) = [(langOf r, v)]"
  by (cases f) (simp_all add: rowEntity_def Let_def)

lemma single_key_empty_resolves_empty:
  assumes "plural f doc = [(l, v)]" and "map_of (plural f doc) lang = Some []"
  shows "tData ls doc f lang = []"
proof -
  from assms have v: "v = []" by (simp split: if_splits)
  show ?thesis
    by (simp add: tData_def Let_def jsor_def orEmpty_def truthy_def assms(1) v)
qed

text \<open>
  C10, as stated, fails in its last sentence: the empty strings that per-row
  normalization stores do not make the fall-through observable. A per-row map has one
  key, so a stored empty string resolves to the empty string, even when another row of
  the same doctor carries the value: of the two rows below the first has no name, its
  per-row entity resolves to the empty name under \<open>en\<close>, whatever the display language,
  although the second row holds the Chinese name.
\<close>

theorem tData_perrow_placeholder:
  "names (normalizePerRow nameless_rows ! 0) = [(''en'', [])] \<and>
   names (normalizePerRow nameless_rows ! 1) = [(''zh-HK'', chan)] \<and>
   tData ''en'' (normalizePerRow nameless_rows ! 0) Name ''en'' = [] \<and>
   tData ''zh-HK'' (normalizePerRow nameless_rows ! 0) Name ''en'' = []"
  by code_simp

text \<open>
  C10, amended: when the requested language holds the empty string, \<open>tData\<close> returns
  what the fallback chain \<open>zh-HK\<close>, \<open>zh-CN\<close>, \<open>en\<close> gives, and it returns the empty
  string only when none of the three holds a non-empty value. On an entity of per-row
  normalization, whose maps have a single key, a stored empty string always resolves to
  the empty string; the fall-through to another language shows on entities of grouped
  normalization, whose \<open>names\<close> map can hold the empty string under one language and a
  name under another.
\<close>

theorem tData_empty_is_absent:
  assumes "lang \<noteq> []" and "map_of (plural f doc) lang = Some []"
  shows "tData ls doc f lang =
           orEmpty (jsor (map_of (plural f doc) ''zh-HK'')
                     (jsor (map_of (plural f doc) ''zh-CN'') (map_of (plural f doc) ''en''))) \<and>
         (tData ls doc f lang = [] \<longrightarrow>
            \<not> truthy (map_of (plural f doc) ''zh-HK'') \<and>
            \<not> truthy (map_of (plural f doc) ''zh-CN'') \<and>
            \<not> truthy (map_of (plural f doc) ''en'')) \<and>
         (i < length data \<and> doc = normalizePerRow data ! i \<longrightarrow> tData ls doc f lang = [])"
proof -
  have a: "tData ls doc f lang =
           orEmpty (jsor (map_of (plural f doc) ''zh-HK'')
                     (jsor (map_of (plural f doc) ''zh-CN'') (map_of (plural f doc) ''en''))) \<and>
         (tData ls doc f lang = [] \<longrightarrow>
            \<not> truthy (map_of (plural f doc) ''zh-HK'') \<and>
            \<not> truthy (map_of (plural f doc) ''zh-CN'') \<and>
            \<not> truthy (map_of (plural f doc) ''en''))"
    using assms
    by (auto simp: tData_def jsor_def orEmpty_def truthy_def Let_def split: option.splits)
  have b: "i < length data \<and> doc = normalizePerRow data ! i \<longrightarrow> tData ls doc f lang = []"
  proof
    assume h: "i < length data \<and> doc = normalizePerRow data ! i"
    then have "doc = rowEntity i (data ! i)" by (simp add: normalizePerRow_nth)
    with rowEntity_single_key [of f i "data ! i"]
    obtain v where "plural f doc = [(langOf (data ! i), v)]" by auto
    from single_key_empty_resolves_empty [OF this assms(2)]
    show "tData ls doc f lang = []" .
  qed
  from a b show ?thesis by simp
qed

theorem tData_empty_is_absent_witness:
  "''en'' \<noteq> [] \<and> map_of (plural Name (hd (mergeByDocId nameless_rows))) ''en'' = Some [] \<and>
   tData ''en'' (hd (mergeByDocId nameless_rows)) Name ''en'' = chan \<and> chan \<noteq> [] \<and>
   (0::nat) < length nameless_rows \<and>
   map_of (plural Name (normalizePerRow nameless_rows ! 0)) ''en'' = Some [] \<and>
   tData ''zh-HK'' (normalizePerRow nameless_rows ! 0) Name ''en'' = []"
proof -
  have a: "''en'' \<noteq> []" by simp
  have b: "map_of (plural Name (hd (mergeByDocId nameless_rows))) ''en'' = Some []" by code_simp
  have c: "orEmpty (jsor (map_of (plural Name (hd (mergeByDocId nameless_rows))) ''zh-HK'')
                     (jsor (map_of (plural Name (hd (mergeByDocId nameless_rows))) ''zh-CN'')
                        (map_of (plural Name (hd (mergeByDocId nameless_rows))) ''en''))) = chan"
    by code_simp
  have d: "chan \<noteq> []" by code_simp
  have l: "(0::nat) < length nameless_rows" by (simp add: nameless_rows_def)
  have p: "map_of (plural Name (normalizePerRow nameless_rows ! 0)) ''en'' = Some []"
    by code_simp
  from tData_empty_is_absent [OF a b, of "''en''"] c d a b
  have g: "tData ''en'' (hd (mergeByDocId nameless_rows)) Name ''en'' = chan" by simp
  from tData_empty_is_absent [OF a p, of "''zh-HK''" 0 nameless_rows] l
  have r: "tData ''zh-HK'' (normalizePerRow nameless_rows ! 0) Name ''en'' = []" by blast
  from a b d l p g r show ?thesis by simp
qed

section \<open>Keys of the grouping map\<close>

lemma mergeMap_snoc: "mergeMap (xs @ [x]) = mergeStep (mergeMap xs) x"
  by (simp add: mergeMap_def)

lemma mergeMap_Nil: "mergeMap [] = []"
  by (simp add: mergeMap_def)

lemma map_has_keys: "map_has m k \<longleftrightarrow> k \<in> fst ` set m"
  by (simp add: map_has_def map_of_eq_None_iff)

lemma mergeStep_keys:
  "map fst (mergeStep m item) =
     (if idOf item \<in> fst ` set m then map fst m else map fst m @ [idOf item])"
  by (simp add: mergeStep_def Let_def map_has_keys update_keys dom_update)

lemma mergeMap_keys:
  "distinct (map fst (mergeMap data)) \<and> set (map fst (mergeMap data)) = idOf ` set data"
proof (induction data rule: rev_induct)
  case Nil
  show ?case by (simp add: mergeMap_Nil)
next
  case (snoc x xs)
  then show ?case by (auto simp: mergeMap_snoc mergeStep_keys)
qed

section \<open>Filter engine\<close>

lemma passes_no_selection: "passes [] [] [] [] [] d"
  by (simp add: passes_def)

lemma trim_Nil: "trim [] = []"
  by (simp add: trim_def)

lemma toLowerCase_Nil: "toLowerCase [] = []"
  by (simp add: toLowerCase_def)

text \<open>
  C8: with an empty text query and the four selectors empty, \<open>applyFilters\<close> hands the
  whole collection, in its order, to the renderer and leaves the collection as it is.
\<close>

theorem applyFilters_empty_selection:
  assumes "searchInput st = []"
    and "sel_value (specialtySelect st) = []"
    and "sel_value (citySelect st) = []"
    and "sel_value (districtSelect st) = []"
    and "sel_value (areaSelect st) = []"
  shows "rendered (applyFilters st) = doctors st \<and> doctors (applyFilters st) = doctors st"
  using assms by (simp add: applyFilters_def passes_no_selection trim_Nil toLowerCase_Nil)

theorem applyFilters_empty_selection_witness:
  "searchInput (start_view ''en'' (normalizePerRow tan_rows)) = [] \<and>
   sel_value (specialtySelect (start_view ''en'' (normalizePerRow tan_rows))) = [] \<and>
   sel_value (citySelect (start_view ''en'' (normalizePerRow tan_rows))) = [] \<and>
   sel_value (districtSelect (start_view ''en'' (normalizePerRow tan_rows))) = [] \<and>
   sel_value (areaSelect (start_view ''en'' (normalizePerRow tan_rows))) = [] \<and>
   rendered (applyFilters (start_view ''en'' (normalizePerRow tan_rows))) = normalizePerRow tan_rows \<and>
   length (normalizePerRow tan_rows) = 2"
proof -
  have a: "searchInput (start_view ''en'' (normalizePerRow tan_rows)) = []"
    by (simp add: start_view_def)
  have b: "sel_value (specialtySelect (start_view ''en'' (normalizePerRow tan_rows))) = []"
    by (simp add: start_view_def placeholder_only_def)
  have c: "sel_value (citySelect (start_view ''en'' (normalizePerRow tan_rows))) = []"
    by (simp add: start_view_def placeholder_only_def)
  have d: "sel_value (districtSelect (start_view ''en'' (normalizePerRow tan_rows))) = []"
    by (simp add: start_view_def placeholder_only_def)
  have e: "sel_value (areaSelect (start_view ''en'' (normalizePerRow tan_rows))) = []"
    by (simp add: start_view_def placeholder_only_def)
  have f: "doctors (start_view ''en'' (normalizePerRow tan_rows)) = normalizePerRow tan_rows"
    by (simp add: start_view_def)
  have g: "length (normalizePerRow tan_rows) = 2"
    by (simp add: normalizePerRow_def tan_rows_def)
  from applyFilters_empty_selection [OF a b c d e] a b c d e f g show ?thesis by simp
qed

text \<open>The earlier copy is the identity on an empty selection as well.\<close>

lemma script_applyFilters_empty_selection:
  "script_applyFilters langSel [] [] [] [] [] ds = ds"
  by (simp add: script_applyFilters_def script_passes_def trim_Nil toLowerCase_Nil Let_def)

lemma some_value_is_iff:
  "some_value_is m sel \<longleftrightarrow> (\<exists>(l, v) \<in> set m. toLowerCase v = toLowerCase sel)"
  by (force simp: some_value_is_def list_ex_iff)

lemma passes_iff:
  "passes q specialty city district area d \<longleftrightarrow>
     (q = [] \<or> includes_str (toLowerCase (join '' '' (map snd (names d)))) q) \<and>
     (specialty = [] \<or> (\<exists>(l, v) \<in> set (specialties d). toLowerCase v = toLowerCase specialty)) \<and>
     (city = [] \<or> (\<exists>(l, v) \<in> set (cities d). toLowerCase v = toLowerCase city)) \<and>
     (district = [] \<or> (\<exists>(l, v) \<in> set (districts d). toLowerCase v = toLowerCase district)) \<and>
     (area = [] \<or> (\<exists>(l, v) \<in> set (areas d). toLowerCase v = toLowerCase area))"
  unfolding passes_def Let_def some_value_is_iff by auto

text \<open>
  The filter engine of the current script matches any language: an entity is shown
  exactly when it is in the collection, its joined names contain the query, and for
  every non-empty selection some entry of the corresponding map, under whatever
  language, equals the selection up to letter case.
\<close>

lemma applyFilters_matches_any_language:
  "d \<in> set (rendered (applyFilters st)) \<longleftrightarrow>
     d \<in> set (doctors st) \<and>
     (toLowerCase (trim (searchInput st)) = [] \<or>
        includes_str (toLowerCase (join '' '' (map snd (names d))))
          (toLowerCase (trim (searchInput st)))) \<and>
     (sel_value (specialtySelect st) = [] \<or>
        (\<exists>(l, v) \<in> set (specialties d). toLowerCase v = toLowerCase (sel_value (specialtySelect st)))) \<and>
     (sel_value (citySelect st) = [] \<or>
        (\<exists>(l, v) \<in> set (cities d). toLowerCase v = toLowerCase (sel_value (citySelect st)))) \<and>
     (sel_value (districtSelect st) = [] \<or>
        (\<exists>(l, v) \<in> set (districts d). toLowerCase v = toLowerCase (sel_value (districtSelect st)))) \<and>
     (sel_value (areaSelect st) = [] \<or>
        (\<exists>(l, v) \<in> set (areas d). toLowerCase v = toLowerCase (sel_value (areaSelect st))))"
  by (simp add: applyFilters_def Let_def passes_iff)

text \<open>
  On the scenario (display language \<open>zh-HK\<close>, city selection \<open>Hong Kong\<close> supplied
  directly) the current script shows the doctor. With a second doctor who has an
  English row only, \<open>Hong Kong\<close> is an offered city under \<open>zh-HK\<close>, and picking it
  shows both doctors.
\<close>

lemma applyFilters_scenario:
  "rendered (applyFilters tan_view) = mergeByDocId tan_rows \<and>
   length (mergeByDocId tan_rows) = 1 \<and>
   sel_options (citySelect (populateFilters (start_view ''zh-HK'' (mergeByDocId mixed_rows))))
     = [[], ''Hong Kong'', heung_gong] \<and>
   rendered (cityChange ''Hong Kong'' (populateFilters (start_view ''zh-HK'' (mergeByDocId mixed_rows))))
     = mergeByDocId mixed_rows \<and>
   map ident (mergeByDocId mixed_rows) = [''1'', ''2'']"
  by code_simp

text \<open>
  C1 holds of the current script (the two lemmas above) and fails in the earlier copy
  \<open>src/script.js\<close>, whose \<open>applyFilters\<close> compares the selection with the one label that
  \<open>tData\<close> resolves in the active language, by strict equality. With the two doctors
  above and display language \<open>zh-HK\<close>, the second doctor resolves to \<open>Hong Kong\<close>, so
  that label is offered; the first doctor stores \<open>Hong Kong\<close> under \<open>en\<close>, yet the
  selection \<open>Hong Kong\<close> shows the second doctor only. On the scenario alone the
  selection \<open>Hong Kong\<close> under \<open>zh-HK\<close> shows nothing, nor does \<open>hong kong\<close> under \<open>en\<close>.
\<close>

theorem script_applyFilters_misses_other_language:
  "map s_id (script_mergeByDocId mixed_rows) = [Some ''1'', Some ''2''] \<and>
   s_cities (script_mergeByDocId mixed_rows ! 0) = [(''en'', ''Hong Kong''), (''zh-HK'', heung_gong)] \<and>
   s_cities (script_mergeByDocId mixed_rows ! 1) = [(''en'', ''Hong Kong'')] \<and>
   script_tData ''zh-HK'' (script_mergeByDocId mixed_rows ! 1) City ''zh-HK'' = ''Hong Kong'' \<and>
   script_applyFilters ''zh-HK'' [] [] ''Hong Kong'' [] [] (script_mergeByDocId mixed_rows)
     = [script_mergeByDocId mixed_rows ! 1] \<and>
   script_applyFilters ''zh-HK'' [] [] ''Hong Kong'' [] [] (script_mergeByDocId tan_rows) = [] \<and>
   script_applyFilters ''en'' [] [] ''hong kong'' [] [] (script_mergeByDocId tan_rows) = []"
  by code_simp

section \<open>Cascade of the dependent selectors\<close>

lemma foldl_appendChild_value:
  "sel_options s \<noteq> [] \<Longrightarrow> sel_value (foldl appendChild s vs) = sel_value s"
proof (induction vs arbitrary: s)
  case Nil
  show ?case by simp
next
  case (Cons v vs)
  have "sel_options (appendChild s v) \<noteq> []" by (simp add: appendChild_def)
  from Cons.IH [OF this] Cons.prems show ?case by (simp add: appendChild_def)
qed

lemma refill_value: "sel_value (foldl appendChild placeholder_only vs) = []"
  using foldl_appendChild_value [of placeholder_only vs] by (simp add: placeholder_only_def)

lemma updateDistrictsForCity_resets:
  "sel_value (districtSelect (updateDistrictsForCity c st)) = [] \<and>
   sel_value (areaSelect (updateDistrictsForCity c st)) = []"
  by (simp add: updateDistrictsForCity_def Let_def refill_value) (simp add: placeholder_only_def)

lemma updateDistrictsForCity_frame:
  "searchInput (updateDistrictsForCity c st) = searchInput st \<and>
   specialtySelect (updateDistrictsForCity c st) = specialtySelect st \<and>
   citySelect (updateDistrictsForCity c st) = citySelect st \<and>
   doctors (updateDistrictsForCity c st) = doctors st"
  by (simp add: updateDistrictsForCity_def Let_def)

lemma updateAreasForDistrict_resets:
  "sel_value (areaSelect (updateAreasForDistrict c d st)) = []"
  by (simp add: updateAreasForDistrict_def Let_def refill_value)

lemma updateAreasForDistrict_frame:
  "searchInput (updateAreasForDistrict c d st) = searchInput st \<and>
   specialtySelect (updateAreasForDistrict c d st) = specialtySelect st \<and>
   citySelect (updateAreasForDistrict c d st) = citySelect st \<and>
   districtSelect (updateAreasForDistrict c d st) = districtSelect st \<and>
   doctors (updateAreasForDistrict c d st) = doctors st"
  by (simp add: updateAreasForDistrict_def Let_def)

lemma applyFilters_frame:
  "searchInput (applyFilters st) = searchInput st \<and>
   specialtySelect (applyFilters st) = specialtySelect st \<and>
   citySelect (applyFilters st) = citySelect st \<and>
   districtSelect (applyFilters st) = districtSelect st \<and>
   areaSelect (applyFilters st) = areaSelect st \<and>
   doctors (applyFilters st) = doctors st"
  by (simp add: applyFilters_def Let_def)

text \<open>
  C5: a change of the city selector leaves the district and area selections empty, a
  change of the district selector leaves the area selection empty, and the filter pass
  that the listener runs already reads the emptied selections. So after city \<open>x\<close>,
  district \<open>y\<close>, city \<open>z\<close> the district and area selections are empty.
\<close>

theorem cascade_reset:
  "sel_value (districtSelect (cityChange z st)) = [] \<and>
   sel_value (areaSelect (cityChange z st)) = [] \<and>
   sel_value (areaSelect (districtChange y st)) = [] \<and>
   rendered (cityChange z st) =
     filter (passes (toLowerCase (trim (searchInput st))) (sel_value (specialtySelect st))
               (sel_value (citySelect (cityChange z st))) [] []) (doctors st) \<and>
   rendered (districtChange y st) =
     filter (passes (toLowerCase (trim (searchInput st))) (sel_value (specialtySelect st))
               (sel_value (citySelect st)) (sel_value (districtSelect (districtChange y st))) [])
       (doctors st) \<and>
   sel_value (districtSelect (cityChange z (districtChange y (cityChange x st)))) = [] \<and>
   sel_value (areaSelect (cityChange z (districtChange y (cityChange x st)))) = []"
proof -
  have c: "\<And>v s. sel_value (districtSelect (cityChange v s)) = [] \<and>
                 sel_value (areaSelect (cityChange v s)) = []"
    by (simp add: cityChange_def Let_def applyFilters_frame updateAreasForDistrict_frame
        updateAreasForDistrict_resets updateDistrictsForCity_resets)
  have d: "sel_value (areaSelect (districtChange y st)) = []"
    by (simp add: districtChange_def Let_def applyFilters_frame updateAreasForDistrict_resets)
  have rc: "rendered (cityChange z st) =
     filter (passes (toLowerCase (trim (searchInput st))) (sel_value (specialtySelect st))
               (sel_value (citySelect (cityChange z st))) [] []) (doctors st)"
    unfolding cityChange_def Let_def
    by (simp add: applyFilters_def Let_def applyFilters_frame updateAreasForDistrict_frame
        updateAreasForDistrict_resets updateDistrictsForCity_resets updateDistrictsForCity_frame)
  have rd: "rendered (districtChange y st) =
     filter (passes (toLowerCase (trim (searchInput st))) (sel_value (specialtySelect st))
               (sel_value (citySelect st)) (sel_value (districtSelect (districtChange y st))) [])
       (doctors st)"
    unfolding districtChange_def Let_def
    by (simp add: applyFilters_def Let_def applyFilters_frame updateAreasForDistrict_frame
        updateAreasForDistrict_resets)
  from c d rc rd show ?thesis by simp
qed

section \<open>Seed fields in grouped mode\<close>

lemma find_snoc:
  "find P (xs @ [x]) = (case find P xs of None \<Rightarrow> (if P x then Some x else None) | Some y \<Rightarrow> Some y)"
  by (induction xs) simp_all

lemma mergeStep_lookup:
  "map_of (mergeStep m item) k =
     (if k = idOf item
      then Some (keepLatLng item (populate item
                  (case map_of m k of None \<Rightarrow> newDoc k item | Some d \<Rightarrow> d)))
      else map_of m k)"
  by (cases "map_of m (idOf item)") (simp_all add: mergeStep_def Let_def map_has_def update_conv')

lemma mergeMap_lookup_None: "map_of (mergeMap data) k = None \<longleftrightarrow> k \<notin> idOf ` set data"
  using mergeMap_keys [of data] by (simp add: map_of_eq_None_iff)

lemma mergeByDocId_mem:
  "e \<in> set (mergeByDocId data) \<longleftrightarrow> (\<exists>k. map_of (mergeMap data) k = Some e)"
proof -
  have d: "distinct (map fst (mergeMap data))" using mergeMap_keys [of data] by simp
  show ?thesis
  proof
    assume "e \<in> set (mergeByDocId data)"
    then obtain k where "(k, e) \<in> set (mergeMap data)" by (auto simp: mergeByDocId_def)
    with d have "map_of (mergeMap data) k = Some e" by simp
    then show "\<exists>k. map_of (mergeMap data) k = Some e" ..
  next
    assume "\<exists>k. map_of (mergeMap data) k = Some e"
    then obtain k where "map_of (mergeMap data) k = Some e" ..
    then have "(k, e) \<in> set (mergeMap data)" by (rule map_of_SomeD)
    then show "e \<in> set (mergeByDocId data)" by (force simp: mergeByDocId_def)
  qed
qed

lemma step_seed:
  "ident (keepLatLng item (populate item d)) = ident d \<and>
   address (keepLatLng item (populate item d)) = address d \<and>
   cta_link (keepLatLng item (populate item d)) = cta_link d \<and>
   lat (keepLatLng item (populate item d)) =
     (if lat d = [] \<and> truthy (doc_lat item) then the (doc_lat item) else lat d) \<and>
   lng (keepLatLng item (populate item d)) =
     (if lng d = [] \<and> truthy (doc_long item) then the (doc_long item) else lng d)"
  by (simp add: keepLatLng_def populate_def Let_def)

lemma first_value_snoc:
  "first_value fld k (xs @ [x]) =
     (if first_value fld k xs \<noteq> [] then first_value fld k xs
      else if idOf x = k \<and> truthy (fld x) then the (fld x) else [])"
proof (cases "find (\<lambda>it. idOf it = k \<and> truthy (fld it)) xs")
  case None
  then show ?thesis by (simp add: first_value_def find_snoc)
next
  case (Some it)
  then have "truthy (fld it)" by (auto simp: find_Some_iff)
  then have "the (fld it) \<noteq> []" by (auto simp: truthy_def split: option.splits)
  with Some show ?thesis by (simp add: first_value_def find_snoc)
qed

lemma first_value_unseen: "k \<notin> idOf ` set xs \<Longrightarrow> first_value fld k xs = []"
proof -
  assume "k \<notin> idOf ` set xs"
  then have "find (\<lambda>it. idOf it = k \<and> truthy (fld it)) xs = None"
    by (auto simp: find_None_iff)
  then show ?thesis by (simp add: first_value_def)
qed

lemma first_row_snoc:
  "first_row k (xs @ [x]) =
     (case first_row k xs of None \<Rightarrow> (if idOf x = k then Some x else None) | Some y \<Rightarrow> Some y)"
  by (simp add: first_row_def find_snoc)

lemma first_row_unseen: "k \<notin> idOf ` set xs \<Longrightarrow> first_row k xs = None"
  by (auto simp: first_row_def find_None_iff)

lemma orEmpty_truthy: "orEmpty v = (if truthy v then the v else [])"
  by (simp add: orEmpty_def truthy_def split: option.splits)

lemma mergeMap_seed:
  "map_of (mergeMap data) k = Some e \<Longrightarrow>
     ident e = k \<and>
     (\<exists>r. first_row k data = Some r \<and> address e = orEmpty (doc_address r) \<and>
          cta_link e = orEmpty (item_cta_link r)) \<and>
     lat e = first_value doc_lat k data \<and> lng e = first_value doc_long k data"
proof (induction data arbitrary: e rule: rev_induct)
  case Nil
  then show ?case by (simp add: mergeMap_Nil)
next
  case (snoc x xs)
  show ?case
  proof (cases "k = idOf x")
    case False
    with snoc.prems have "map_of (mergeMap xs) k = Some e"
      by (simp add: mergeMap_snoc mergeStep_lookup)
    from snoc.IH [OF this] False show ?thesis
      by (auto simp: first_row_snoc first_value_snoc)
  next
    case True
    then have idx: "idOf x = k" by simp
    show ?thesis
    proof (cases "map_of (mergeMap xs) k")
      case None
      then have unseen: "k \<notin> idOf ` set xs" by (simp add: mergeMap_lookup_None)
      from None idx snoc.prems have e: "e = keepLatLng x (populate x (newDoc k x))"
        by (simp add: mergeMap_snoc mergeStep_lookup)
      have nd: "ident (newDoc k x) = k \<and> address (newDoc k x) = orEmpty (doc_address x) \<and>
                cta_link (newDoc k x) = orEmpty (item_cta_link x) \<and>
                lat (newDoc k x) = orEmpty (doc_lat x) \<and> lng (newDoc k x) = orEmpty (doc_long x)"
        by (simp add: newDoc_def)
      have a: "ident e = k \<and> address e = orEmpty (doc_address x) \<and>
               cta_link e = orEmpty (item_cta_link x)"
        by (simp add: e step_seed nd)
      have b: "first_row k (xs @ [x]) = Some x"
        by (simp add: first_row_snoc first_row_unseen [OF unseen] idx)
      have c: "lat e = first_value doc_lat k (xs @ [x])"
        by (simp add: e step_seed nd first_value_snoc first_value_unseen [OF unseen] idx
            orEmpty_truthy)
      have d: "lng e = first_value doc_long k (xs @ [x])"
        by (simp add: e step_seed nd first_value_snoc first_value_unseen [OF unseen] idx
            orEmpty_truthy)
      from a b c d show ?thesis by blast
    next
      case (Some d)
      from Some idx snoc.prems have e: "e = keepLatLng x (populate x d)"
        by (simp add: mergeMap_snoc mergeStep_lookup)
      from snoc.IH [OF Some] obtain r where r: "ident d = k" "first_row k xs = Some r"
        "address d = orEmpty (doc_address r)" "cta_link d = orEmpty (item_cta_link r)"
        "lat d = first_value doc_lat k xs" "lng d = first_value doc_long k xs"
        by blast
      have a: "ident e = k \<and> address e = orEmpty (doc_address r) \<and>
               cta_link e = orEmpty (item_cta_link r)"
        by (simp add: e step_seed r)
      have b: "first_row k (xs @ [x]) = Some r"
        by (simp add: first_row_snoc r)
      have c: "lat e = first_value doc_lat k (xs @ [x])"
        by (simp add: e step_seed r first_value_snoc idx)
      have d: "lng e = first_value doc_long k (xs @ [x])"
        by (simp add: e step_seed r first_value_snoc idx)
      from a b c d show ?thesis by blast
    qed
  qed
qed

text \<open>
  C4, as stated, fails for the coordinates: \<open>mergeByDocId\<close> keeps filling \<open>lat\<close> and
  \<open>lng\<close> while they are empty (\<open>if (!doc.lat && item.doc_lat) doc.lat = item.doc_lat\<close>).
  Of two rows with the same identifier where only the second carries coordinates, the
  entity takes the second row's coordinates, not the first row's empty ones.
\<close>

theorem mergeByDocId_seed_counterexample:
  "length (mergeByDocId late_coords_rows) = 1 \<and>
   first_row ''7'' late_coords_rows = Some (hd late_coords_rows) \<and>
   orEmpty (doc_lat (hd late_coords_rows)) = [] \<and>
   orEmpty (doc_long (hd late_coords_rows)) = [] \<and>
   lat (hd (mergeByDocId late_coords_rows)) = ''22.28'' \<and>
   lng (hd (mergeByDocId late_coords_rows)) = ''114.15''"
  by code_simp

text \<open>
  C4, amended: in grouped mode the fallback address and the action link of the entity
  for an identifier are those of the first row bearing the identifier, whatever later
  rows carry; latitude (longitude) is that of the first row bearing the identifier with
  a non-empty latitude (longitude), and empty when there is none. So the first row's
  latitude and longitude are kept whenever they are non-empty.
\<close>

theorem mergeByDocId_seed_fields:
  assumes "e \<in> set (mergeByDocId data)"
  shows "\<exists>r. first_row (ident e) data = Some r \<and>
             address e = orEmpty (doc_address r) \<and>
             cta_link e = orEmpty (item_cta_link r) \<and>
             lat e = first_value doc_lat (ident e) data \<and>
             lng e = first_value doc_long (ident e) data \<and>
             (truthy (doc_lat r) \<longrightarrow> lat e = the (doc_lat r)) \<and>
             (truthy (doc_long r) \<longrightarrow> lng e = the (doc_long r))"
proof -
  from assms obtain k where k: "map_of (mergeMap data) k = Some e"
    by (auto simp: mergeByDocId_mem)
  from mergeMap_seed [OF k] obtain r where r: "ident e = k" "first_row k data = Some r"
    "address e = orEmpty (doc_address r)" "cta_link e = orEmpty (item_cta_link r)"
    "lat e = first_value doc_lat k data" "lng e = first_value doc_long k data"
    by blast
  have fv: "\<And>fld. truthy (fld r) \<Longrightarrow> first_value fld k data = the (fld r)"
  proof -
    fix fld assume t: "truthy (fld r)"
    from r(2) obtain i where i: "i < length data" "data ! i = r" "idOf r = k"
      "\<forall>j<i. idOf (data ! j) \<noteq> k"
      by (auto simp: first_row_def find_Some_iff)
    have "find (\<lambda>it. idOf it = k \<and> truthy (fld it)) data = Some r"
      unfolding find_Some_iff using i t by auto
    then show "first_value fld k data = the (fld r)" by (simp add: first_value_def)
  qed
  from r fv show ?thesis by auto
qed

theorem mergeByDocId_seed_fields_witness:
  "hd (mergeByDocId late_coords_rows) \<in> set (mergeByDocId late_coords_rows) \<and>
   address (hd (mergeByDocId late_coords_rows)) = ''1 Queen's Road'' \<and>
   cta_link (hd (mergeByDocId late_coords_rows)) = ''https://a.example'' \<and>
   lat (hd (mergeByDocId late_coords_rows)) = first_value doc_lat ''7'' late_coords_rows \<and>
   first_value doc_lat ''7'' late_coords_rows = ''22.28''"
proof -
  have m: "hd (mergeByDocId late_coords_rows) \<in> set (mergeByDocId late_coords_rows)"
    by code_simp
  have i: "ident (hd (mergeByDocId late_coords_rows)) = ''7''" by code_simp
  have f: "first_row ''7'' late_coords_rows = Some (hd late_coords_rows)" by code_simp
  have a: "orEmpty (doc_address (hd late_coords_rows)) = ''1 Queen's Road''" by code_simp
  have c: "orEmpty (item_cta_link (hd late_coords_rows)) = ''https://a.example''" by code_simp
  have v: "first_value doc_lat ''7'' late_coords_rows = ''22.28''" by code_simp
  from mergeByDocId_seed_fields [OF m] i f a c v m show ?thesis by auto
qed

text \<open>
  The earlier copy \<open>src/script.js\<close> has no such refill: there all four seed fields are
  those of the first row bearing the identifier.
\<close>

lemma script_mergeStep_lookup:
  "map_of (script_mergeStep m item) k =
     (if k = doc_id item
      then Some ((case map_of m k of None \<Rightarrow> script_newDoc k item | Some d \<Rightarrow> d)
             \<lparr> s_names := AList.update (langOf item)
                   (orEmpty (jsor (doc_name item)
                      (map_of (s_names (case map_of m k of None \<Rightarrow> script_newDoc k item | Some d \<Rightarrow> d))
                         (langOf item))))
                   (s_names (case map_of m k of None \<Rightarrow> script_newDoc k item | Some d \<Rightarrow> d)),
               s_specialties := put_if (langOf item) (doc_cat_name item)
                   (s_specialties (case map_of m k of None \<Rightarrow> script_newDoc k item | Some d \<Rightarrow> d)),
               s_openings := put_if (langOf item) (doc_wh item)
                   (s_openings (case map_of m k of None \<Rightarrow> script_newDoc k item | Some d \<Rightarrow> d)),
               s_areas := put_if (langOf item) (area_name item)
                   (s_areas (case map_of m k of None \<Rightarrow> script_newDoc k item | Some d \<Rightarrow> d)),
               s_districts := put_if (langOf item) (district_name item)
                   (s_districts (case map_of m k of None \<Rightarrow> script_newDoc k item | Some d \<Rightarrow> d)),
               s_cities := put_if (langOf item) (city_name item)
                   (s_cities (case map_of m k of None \<Rightarrow> script_newDoc k item | Some d \<Rightarrow> d)),
               s_phones := put_if (langOf item) (doc_tel_A item)
                   (s_phones (case map_of m k of None \<Rightarrow> script_newDoc k item | Some d \<Rightarrow> d)) \<rparr>)
      else map_of m k)"
  by (cases "map_of m (doc_id item)") (simp_all add: script_mergeStep_def Let_def map_has_def update_conv')

lemma script_mergeStep_keys:
  "map fst (script_mergeStep m item) =
     (if doc_id item \<in> fst ` set m then map fst m else map fst m @ [doc_id item])"
  by (simp add: script_mergeStep_def Let_def map_has_keys update_keys dom_update)

lemma script_keys:
  "distinct (map fst (foldl script_mergeStep [] data)) \<and>
   set (map fst (foldl script_mergeStep [] data)) = doc_id ` set data"
proof (induction data rule: rev_induct)
  case Nil
  show ?case by simp
next
  case (snoc x xs)
  then show ?case by (auto simp: script_mergeStep_keys)
qed

lemma script_seed:
  "map_of (foldl script_mergeStep [] data) k = Some e \<Longrightarrow>
     s_id e = k \<and>
     (\<exists>r. find (\<lambda>it. doc_id it = k) data = Some r \<and>
          s_address e = orEmpty (doc_address r) \<and> s_lat e = orEmpty (doc_lat r) \<and>
          s_lng e = orEmpty (doc_long r) \<and> s_cta_link e = orEmpty (item_cta_link r))"
proof (induction data arbitrary: e rule: rev_induct)
  case Nil
  then show ?case by simp
next
  case (snoc x xs)
  show ?case
  proof (cases "k = doc_id x")
    case False
    with snoc.prems have "map_of (foldl script_mergeStep [] xs) k = Some e"
      by (simp add: script_mergeStep_lookup)
    from snoc.IH [OF this] False show ?thesis by (auto simp: find_snoc)
  next
    case True
    then have idx: "doc_id x = k" by simp
    show ?thesis
    proof (cases "map_of (foldl script_mergeStep [] xs) k")
      case None
      then have "k \<notin> doc_id ` set xs"
        using script_keys [of xs] by (simp add: map_of_eq_None_iff)
      then have f: "find (\<lambda>it. doc_id it = k) xs = None" by (auto simp: find_None_iff)
      from None idx snoc.prems show ?thesis
        by (auto simp: script_mergeStep_lookup find_snoc f script_newDoc_def)
    next
      case (Some d)
      from snoc.IH [OF Some] Some idx snoc.prems show ?thesis
        by (auto simp: script_mergeStep_lookup find_snoc)
    qed
  qed
qed

lemma script_mergeByDocId_seed_fields:
  assumes "e \<in> set (script_mergeByDocId data)"
  shows "\<exists>r. find (\<lambda>it. doc_id it = s_id e) data = Some r \<and>
             s_address e = orEmpty (doc_address r) \<and> s_lat e = orEmpty (doc_lat r) \<and>
             s_lng e = orEmpty (doc_long r) \<and> s_cta_link e = orEmpty (item_cta_link r)"
proof -
  from assms obtain k where "(k, e) \<in> set (foldl script_mergeStep [] data)"
    by (auto simp: script_mergeByDocId_def)
  with script_keys [of data] have "map_of (foldl script_mergeStep [] data) k = Some e" by simp
  from script_seed [OF this] show ?thesis by blast
qed

section \<open>Size of the normalizer's output\<close>

lemma mergeByDocId_idents: "map ident (mergeByDocId data) = map fst (mergeMap data)"
proof -
  have d: "distinct (map fst (mergeMap data))" using mergeMap_keys [of data] by simp
  have "ident (snd p) = fst p" if "p \<in> set (mergeMap data)" for p
  proof -
    from that have "(fst p, snd p) \<in> set (mergeMap data)" by simp
    with d have "map_of (mergeMap data) (fst p) = Some (snd p)" by (rule map_of_is_SomeI)
    from mergeMap_seed [OF this] show ?thesis by simp
  qed
  then show ?thesis by (simp add: mergeByDocId_def)
qed

lemma idOf_raw: "idOf item = (case doc_id item of None \<Rightarrow> [] | Some s \<Rightarrow> s)"
  by (simp add: idOf_def orEmpty_def)

text \<open>
  C7: in grouped mode (\<open>showAllRecords\<close> false) the number of entities is the number of
  distinct identifiers in the \<open>doc_id\<close> field of the input rows, a row without the field
  counting as a row with the empty identifier; the entities carry exactly these
  identifiers, each once. In per-row mode the number of entities is the number of input
  rows.
\<close>

theorem normalize_sizes:
  "length (normalize False data) =
     card ((\<lambda>item. case doc_id item of None \<Rightarrow> [] | Some s \<Rightarrow> s) ` set data) \<and>
   distinct (map ident (normalize False data)) \<and>
   set (map ident (normalize False data)) =
     (\<lambda>item. case doc_id item of None \<Rightarrow> [] | Some s \<Rightarrow> s) ` set data \<and>
   length (normalize True data) = length data"
proof -
  let ?raw = "\<lambda>item. case doc_id item of None \<Rightarrow> [] | Some s \<Rightarrow> s"
  have r: "idOf ` set data = ?raw ` set data"
    by (rule image_cong) (simp_all add: idOf_raw)
  have d: "distinct (map ident (mergeByDocId data))"
    using mergeMap_keys [of data] by (simp add: mergeByDocId_idents)
  have s: "set (map ident (mergeByDocId data)) = ?raw ` set data"
    using mergeMap_keys [of data] r by (simp add: mergeByDocId_idents)
  have "length (mergeByDocId data) = length (map ident (mergeByDocId data))" by simp
  also have "\<dots> = card (set (map ident (mergeByDocId data)))"
    using d by (simp only: distinct_card)
  also have "\<dots> = card (?raw ` set data)" by (simp only: s)
  finally have l: "length (mergeByDocId data) = card (?raw ` set data)" .
  have p: "length (normalizePerRow data) = length data"
    by (simp add: normalizePerRow_def)
  from l d s p show ?thesis by (simp add: normalize_def)
qed

theorem normalize_sizes_witness:
  "length (normalize False mixed_rows) = 2 \<and>
   map ident (normalize False mixed_rows) = [''1'', ''2''] \<and>
   length mixed_rows = 3 \<and>
   length (normalize True mixed_rows) = 3"
proof -
  have c: "card ((\<lambda>item. case doc_id item of None \<Rightarrow> [] | Some s \<Rightarrow> s) ` set mixed_rows) = 2"
    by code_simp
  have l: "length mixed_rows = 3" by code_simp
  have i: "map ident (normalize False mixed_rows) = [''1'', ''2'']" by code_simp
  from normalize_sizes [of mixed_rows] c l i show ?thesis by simp
qed

section \<open>Values stored in the language-keyed maps\<close>

lemma sourced_snoc:
  "sourced (xs @ [x]) k fld lv \<longleftrightarrow>
     sourced xs k fld lv \<or> (idOf x = k \<and> langOf x = fst lv \<and> fld x = Some (snd lv))"
  by (auto simp: sourced_def list_ex_iff)

lemma all_sourced_update:
  "all_sourced D k fld m \<Longrightarrow> v \<noteq> [] \<Longrightarrow> sourced D k fld (l, v) \<Longrightarrow>
     all_sourced D k fld (AList.update l v m)"
  by (induction m) (simp_all add: all_sourced_def)

lemma all_sourced_snoc: "all_sourced xs k fld m \<Longrightarrow> all_sourced (xs @ [x]) k fld m"
  by (simp add: all_sourced_def list_all_iff sourced_snoc)

lemma all_sourced_put_if:
  assumes "all_sourced xs k fld m" and "idOf x = k"
  shows "all_sourced (xs @ [x]) k fld (put_if (langOf x) (fld x) m)"
proof (cases "fld x")
  case None
  with assms(1) show ?thesis by (simp add: put_if_def truthy_def all_sourced_snoc)
next
  case (Some v)
  show ?thesis
  proof (cases "v = []")
    case True
    with Some assms(1) show ?thesis by (simp add: put_if_def truthy_def all_sourced_snoc)
  next
    case False
    have "sourced (xs @ [x]) k fld (langOf x, v)"
      by (simp add: sourced_snoc Some assms(2))
    from all_sourced_update [OF all_sourced_snoc [OF assms(1)] False this]
    show ?thesis using Some False by (simp add: put_if_def truthy_def)
  qed
qed

lemma all_sourced_Nil: "all_sourced xs k fld []"
  by (simp add: all_sourced_def)

lemma mergeMap_sourced:
  assumes new: "\<And>i item. acc (newDoc i item) = []"
    and step: "\<And>item d. acc (keepLatLng item (populate item d)) = put_if (langOf item) (fld item) (acc d)"
  shows "map_of (mergeMap data) k = Some e \<Longrightarrow> all_sourced data k fld (acc e)"
proof (induction data arbitrary: e rule: rev_induct)
  case Nil
  then show ?case by (simp add: mergeMap_Nil)
next
  case (snoc x xs)
  show ?case
  proof (cases "k = idOf x")
    case False
    with snoc.prems have "map_of (mergeMap xs) k = Some e"
      by (simp add: mergeMap_snoc mergeStep_lookup)
    from snoc.IH [OF this] show ?thesis by (rule all_sourced_snoc)
  next
    case True
    then have idx: "idOf x = k" by simp
    show ?thesis
    proof (cases "map_of (mergeMap xs) k")
      case None
      with idx snoc.prems have e: "e = keepLatLng x (populate x (newDoc k x))"
        by (simp add: mergeMap_snoc mergeStep_lookup)
      have "all_sourced xs k fld (acc (newDoc k x))" by (simp add: new all_sourced_Nil)
      from all_sourced_put_if [OF this idx] show ?thesis by (simp add: e step)
    next
      case (Some d)
      with idx snoc.prems have e: "e = keepLatLng x (populate x d)"
        by (simp add: mergeMap_snoc mergeStep_lookup)
      from all_sourced_put_if [OF snoc.IH [OF Some] idx] show ?thesis by (simp add: e step)
    qed
  qed
qed

lemma names_step:
  "names (keepLatLng item (populate item d)) =
     AList.update (langOf item) (orEmpty (jsor (doc_name item) (map_of (names d) (langOf item)))) (names d)"
  by (simp add: keepLatLng_def populate_def Let_def)

lemma all_sourced_or_empty_update:
  "all_sourced_or_empty D k fld m \<Longrightarrow> v = [] \<or> sourced D k fld (l, v) \<Longrightarrow>
     all_sourced_or_empty D k fld (AList.update l v m)"
  by (induction m) (simp_all add: all_sourced_or_empty_def)

lemma all_sourced_or_empty_snoc:
  "all_sourced_or_empty xs k fld m \<Longrightarrow> all_sourced_or_empty (xs @ [x]) k fld m"
  by (simp add: all_sourced_or_empty_def list_all_iff sourced_snoc) blast

lemma all_sourced_or_empty_lookup:
  assumes "all_sourced_or_empty D k fld m" and "map_of m l = Some w"
  shows "w = [] \<or> sourced D k fld (l, w)"
proof -
  from assms(2) have "(l, w) \<in> set m" by (rule map_of_SomeD)
  with assms(1) have "snd (l, w) = [] \<or> sourced D k fld (l, w)"
    unfolding all_sourced_or_empty_def list_all_iff by (rule bspec)
  then show ?thesis by simp
qed

lemma all_sourced_or_empty_name:
  assumes "all_sourced_or_empty xs k doc_name m" and "idOf x = k"
  shows "all_sourced_or_empty (xs @ [x]) k doc_name
           (AList.update (langOf x) (orEmpty (jsor (doc_name x) (map_of m (langOf x)))) m)"
proof -
  let ?v = "orEmpty (jsor (doc_name x) (map_of m (langOf x)))"
  note m' = all_sourced_or_empty_snoc [OF assms(1), of x]
  have new: "?v = [] \<or> sourced (xs @ [x]) k doc_name (langOf x, ?v)"
  proof (cases "truthy (doc_name x)")
    case True
    then have "doc_name x = Some ?v"
      by (cases "doc_name x") (simp_all add: truthy_def jsor_def orEmpty_def)
    with assms(2) show ?thesis by (simp add: sourced_snoc)
  next
    case False
    show ?thesis
    proof (cases "map_of m (langOf x)")
      case None
      with False show ?thesis by (simp add: jsor_def orEmpty_def)
    next
      case (Some w)
      from all_sourced_or_empty_lookup [OF m' Some] False Some show ?thesis
        by (simp add: jsor_def orEmpty_def)
    qed
  qed
  from all_sourced_or_empty_update [OF m' new] show ?thesis .
qed

lemma mergeMap_names:
  "map_of (mergeMap data) k = Some e \<Longrightarrow> all_sourced_or_empty data k doc_name (names e)"
proof (induction data arbitrary: e rule: rev_induct)
  case Nil
  then show ?case by (simp add: mergeMap_Nil)
next
  case (snoc x xs)
  show ?case
  proof (cases "k = idOf x")
    case False
    with snoc.prems have "map_of (mergeMap xs) k = Some e"
      by (simp add: mergeMap_snoc mergeStep_lookup)
    from snoc.IH [OF this] show ?thesis by (rule all_sourced_or_empty_snoc)
  next
    case True
    then have idx: "idOf x = k" by simp
    show ?thesis
    proof (cases "map_of (mergeMap xs) k")
      case None
      with idx snoc.prems have e: "e = keepLatLng x (populate x (newDoc k x))"
        by (simp add: mergeMap_snoc mergeStep_lookup)
      have "all_sourced_or_empty xs k doc_name (names (newDoc k x))"
        by (simp add: newDoc_def all_sourced_or_empty_def)
      from all_sourced_or_empty_name [OF this idx] show ?thesis by (simp add: e names_step)
    next
      case (Some d)
      with idx snoc.prems have e: "e = keepLatLng x (populate x d)"
        by (simp add: mergeMap_snoc mergeStep_lookup)
      from all_sourced_or_empty_name [OF snoc.IH [OF Some] idx] show ?thesis
        by (simp add: e names_step)
    qed
  qed
qed

text \<open>
  C3, as stated, fails under both strategies. Per-row normalization writes every map as
  \<open>{ [lang]: item.f || '' }\<close>, so a row without a specialty stores the empty string;
  grouped normalization writes \<open>doc.names[lang] = item.doc_name || doc.names[lang] || ''\<close>
  unguarded, so a row without a name stores the empty string in \<open>names\<close>.
\<close>

theorem normalizer_stores_empty_strings:
  "specialties (hd (normalizePerRow nameless_rows)) = [(''en'', [])] \<and>
   \<not> spec_nonempty_values (specialties (hd (normalizePerRow nameless_rows))) \<and>
   names (hd (mergeByDocId nameless_rows)) = [(''en'', []), (''zh-HK'', chan)] \<and>
   \<not> spec_nonempty_values (names (hd (mergeByDocId nameless_rows)))"
  by code_simp

text \<open>
  C3, amended: in grouped mode every entry of the maps \<open>addresses\<close>, \<open>phones\<close>,
  \<open>specialties\<close>, \<open>openings\<close>, \<open>remarks\<close>, \<open>areas\<close>, \<open>districts\<close> and \<open>cities\<close> of an
  entity is a non-empty value that is the corresponding field of an input row with the
  entity's identifier and the entry's language; and, when no row's language tag names a
  member inherited from \<open>Object.prototype\<close>, every entry of \<open>names\<close> is such a value or
  the empty string. In per-row mode every map of the entity of row \<open>i\<close> has exactly one
  entry, under the row's language (\<open>en\<close> when the row has none), holding the row's
  field, or the empty string when the row lacks the field.
\<close>

theorem normalizer_map_values:
  "(e \<in> set (mergeByDocId data) \<longrightarrow>
      (list_all (\<lambda>item. ownKeyOnly (langOf item)) data \<longrightarrow>
         all_sourced_or_empty data (ident e) doc_name (names e)) \<and>
      all_sourced data (ident e) doc_address (addresses e) \<and>
      all_sourced data (ident e) doc_tel_A (phones e) \<and>
      all_sourced data (ident e) doc_cat_name (specialties e) \<and>
      all_sourced data (ident e) doc_wh (openings e) \<and>
      all_sourced data (ident e) doc_remark (remarks e) \<and>
      all_sourced data (ident e) area_name (areas e) \<and>
      all_sourced data (ident e) district_name (districts e) \<and>
      all_sourced data (ident e) city_name (cities e)) \<and>
   (i < length data \<longrightarrow>
      names (normalizePerRow data ! i) = [(langOf (data ! i), orEmpty (doc_name (data ! i)))] \<and>
      addresses (normalizePerRow data ! i) = [(langOf (data ! i), orEmpty (doc_address (data ! i)))] \<and>
      phones (normalizePerRow data ! i) = [(langOf (data ! i), orEmpty (doc_tel_A (data ! i)))] \<and>
      specialties (normalizePerRow data ! i) = [(langOf (data ! i), orEmpty (doc_cat_name (data ! i)))] \<and>
      openings (normalizePerRow data ! i) = [(langOf (data ! i), orEmpty (doc_wh (data ! i)))] \<and>
      remarks (normalizePerRow data ! i) = [(langOf (data ! i), orEmpty (doc_remark (data ! i)))] \<and>
      areas (normalizePerRow data ! i) = [(langOf (data ! i), orEmpty (area_name (data ! i)))] \<and>
      districts (normalizePerRow data ! i) = [(langOf (data ! i), orEmpty (district_name (data ! i)))] \<and>
      cities (normalizePerRow data ! i) = [(langOf (data ! i), orEmpty (city_name (data ! i)))])"
proof -
  have grouped: "\<And>k. map_of (mergeMap data) k = Some e \<Longrightarrow>
      all_sourced_or_empty data (ident e) doc_name (names e) \<and>
      all_sourced data (ident e) doc_address (addresses e) \<and>
      all_sourced data (ident e) doc_tel_A (phones e) \<and>
      all_sourced data (ident e) doc_cat_name (specialties e) \<and>
      all_sourced data (ident e) doc_wh (openings e) \<and>
      all_sourced data (ident e) doc_remark (remarks e) \<and>
      all_sourced data (ident e) area_name (areas e) \<and>
      all_sourced data (ident e) district_name (districts e) \<and>
      all_sourced data (ident e) city_name (cities e)"
  proof -
    fix k assume k: "map_of (mergeMap data) k = Some e"
    from mergeMap_seed [OF k] have i: "ident e = k" by simp
    have s: "\<And>item d. addresses (keepLatLng item (populate item d)) = put_if (langOf item) (doc_address item) (addresses d)"
      "\<And>item d. phones (keepLatLng item (populate item d)) = put_if (langOf item) (doc_tel_A item) (phones d)"
      "\<And>item d. specialties (keepLatLng item (populate item d)) = put_if (langOf item) (doc_cat_name item) (specialties d)"
      "\<And>item d. openings (keepLatLng item (populate item d)) = put_if (langOf item) (doc_wh item) (openings d)"
      "\<And>item d. remarks (keepLatLng item (populate item d)) = put_if (langOf item) (doc_remark item) (remarks d)"
      "\<And>item d. areas (keepLatLng item (populate item d)) = put_if (langOf item) (area_name item) (areas d)"
      "\<And>item d. districts (keepLatLng item (populate item d)) = put_if (langOf item) (district_name item) (districts d)"
      "\<And>item d. cities (keepLatLng item (populate item d)) = put_if (langOf item) (city_name item) (cities d)"
      by (simp_all add: keepLatLng_def populate_def Let_def)
    have n: "\<And>i item. addresses (newDoc i item) = []" "\<And>i item. phones (newDoc i item) = []"
      "\<And>i item. specialties (newDoc i item) = []" "\<And>i item. openings (newDoc i item) = []"
      "\<And>i item. remarks (newDoc i item) = []" "\<And>i item. areas (newDoc i item) = []"
      "\<And>i item. districts (newDoc i item) = []" "\<And>i item. cities (newDoc i item) = []"
      by (simp_all add: newDoc_def)
    show "all_sourced_or_empty data (ident e) doc_name (names e) \<and>
      all_sourced data (ident e) doc_address (addresses e) \<and>
      all_sourced data (ident e) doc_tel_A (phones e) \<and>
      all_sourced data (ident e) doc_cat_name (specialties e) \<and>
      all_sourced data (ident e) doc_wh (openings e) \<and>
      all_sourced data (ident e) doc_remark (remarks e) \<and>
      all_sourced data (ident e) area_name (areas e) \<and>
      all_sourced data (ident e) district_name (districts e) \<and>
      all_sourced data (ident e) city_name (cities e)"
      unfolding i
      by (intro conjI mergeMap_names [OF k]
        mergeMap_sourced [of addresses doc_address, OF n(1) s(1) k]
        mergeMap_sourced [of phones doc_tel_A, OF n(2) s(2) k]
        mergeMap_sourced [of specialties doc_cat_name, OF n(3) s(3) k]
        mergeMap_sourced [of openings doc_wh, OF n(4) s(4) k]
        mergeMap_sourced [of remarks doc_remark, OF n(5) s(5) k]
        mergeMap_sourced [of areas area_name, OF n(6) s(6) k]
        mergeMap_sourced [of districts district_name, OF n(7) s(7) k]
        mergeMap_sourced [of cities city_name, OF n(8) s(8) k])
  qed
  have g: "e \<in> set (mergeByDocId data) \<longrightarrow>
      all_sourced_or_empty data (ident e) doc_name (names e) \<and>
      all_sourced data (ident e) doc_address (addresses e) \<and>
      all_sourced data (ident e) doc_tel_A (phones e) \<and>
      all_sourced data (ident e) doc_cat_name (specialties e) \<and>
      all_sourced data (ident e) doc_wh (openings e) \<and>
      all_sourced data (ident e) doc_remark (remarks e) \<and>
      all_sourced data (ident e) area_name (areas e) \<and>
      all_sourced data (ident e) district_name (districts e) \<and>
      all_sourced data (ident e) city_name (cities e)"
  proof
    assume "e \<in> set (mergeByDocId data)"
    then obtain k where "map_of (mergeMap data) k = Some e"
      unfolding mergeByDocId_mem ..
    then show "all_sourced_or_empty data (ident e) doc_name (names e) \<and>
      all_sourced data (ident e) doc_address (addresses e) \<and>
      all_sourced data (ident e) doc_tel_A (phones e) \<and>
      all_sourced data (ident e) doc_cat_name (specialties e) \<and>
      all_sourced data (ident e) doc_wh (openings e) \<and>
      all_sourced data (ident e) doc_remark (remarks e) \<and>
      all_sourced data (ident e) area_name (areas e) \<and>
      all_sourced data (ident e) district_name (districts e) \<and>
      all_sourced data (ident e) city_name (cities e)"
      by (rule grouped)
  qed
  have p: "i < length data \<longrightarrow>
      names (normalizePerRow data ! i) = [(langOf (data ! i), orEmpty (doc_name (data ! i)))] \<and>
      addresses (normalizePerRow data ! i) = [(langOf (data ! i), orEmpty (doc_address (data ! i)))] \<and>
      phones (normalizePerRow data ! i) = [(langOf (data ! i), orEmpty (doc_tel_A (data ! i)))] \<and>
      specialties (normalizePerRow data ! i) = [(langOf (data ! i), orEmpty (doc_cat_name (data ! i)))] \<and>
      openings (normalizePerRow data ! i) = [(langOf (data ! i), orEmpty (doc_wh (data ! i)))] \<and>
      remarks (normalizePerRow data ! i) = [(langOf (data ! i), orEmpty (doc_remark (data ! i)))] \<and>
      areas (normalizePerRow data ! i) = [(langOf (data ! i), orEmpty (area_name (data ! i)))] \<and>
      districts (normalizePerRow data ! i) = [(langOf (data ! i), orEmpty (district_name (data ! i)))] \<and>
      cities (normalizePerRow data ! i) = [(langOf (data ! i), orEmpty (city_name (data ! i)))]"
    by (simp add: normalizePerRow_nth rowEntity_def Let_def)
  from g p show ?thesis by blast
qed

theorem normalizer_map_values_witness:
  "hd (mergeByDocId tan_rows) \<in> set (mergeByDocId tan_rows) \<and>
   list_all (\<lambda>item. ownKeyOnly (langOf item)) tan_rows \<and>
   all_sourced_or_empty tan_rows ''1'' doc_name (names (hd (mergeByDocId tan_rows))) \<and>
   names (hd (mergeByDocId tan_rows)) = [(''en'', ''Tan''), (''zh-HK'', chan)] \<and>
   (1::nat) < length tan_rows \<and>
   all_sourced tan_rows ''1'' city_name (cities (hd (mergeByDocId tan_rows))) \<and>
   cities (hd (mergeByDocId tan_rows)) = [(''en'', ''Hong Kong''), (''zh-HK'', heung_gong)] \<and>
   cities (normalizePerRow tan_rows ! 1) = [(''zh-HK'', heung_gong)] \<and>
   specialties (normalizePerRow tan_rows ! 1) = [(''zh-HK'', [])]"
proof -
  have m: "hd (mergeByDocId tan_rows) \<in> set (mergeByDocId tan_rows)" by code_simp
  have l: "(1::nat) < length tan_rows" by (simp add: tan_rows_def)
  have i: "ident (hd (mergeByDocId tan_rows)) = ''1''" by code_simp
  have c: "cities (hd (mergeByDocId tan_rows)) = [(''en'', ''Hong Kong''), (''zh-HK'', heung_gong)]"
    by code_simp
  have o: "list_all (\<lambda>item. ownKeyOnly (langOf item)) tan_rows" by code_simp
  have n: "names (hd (mergeByDocId tan_rows)) = [(''en'', ''Tan''), (''zh-HK'', chan)]"
    by code_simp
  have r: "langOf (tan_rows ! 1) = ''zh-HK''" "orEmpty (city_name (tan_rows ! 1)) = heung_gong"
    "orEmpty (doc_cat_name (tan_rows ! 1)) = []"
    by code_simp+
  from normalizer_map_values [of "hd (mergeByDocId tan_rows)" tan_rows 1] m l i c r o n
  show ?thesis by simp
qed

section \<open>Vocabulary of the selectors\<close>

lemma vocabulary_snoc: "vocabulary lang (ds @ [d]) = vocabStep lang (vocabulary lang ds) d"
  by (simp add: vocabulary_def)

lemma vocabulary_Nil: "vocabulary lang [] = ([], [])"
  by (simp add: vocabulary_def)

lemma set_set_add: "set (set_add x xs) = insert x (set xs)"
  by (auto simp: set_add_def)

lemma vocabStep_specialties:
  "set (fst (vocabStep lang acc d)) =
     (if tData lang d Specialty lang \<noteq> [] then insert (tData lang d Specialty lang) (set (fst acc))
      else set (fst acc))"
  by (simp add: vocabStep_def Let_def set_set_add)

lemma vocabStep_areas:
  "map_of (districtMapOf c (Some (snd (vocabStep lang acc d)))) di =
     (if c = tData lang d City lang \<and> di = tData lang d District lang
      then Some (let old = (case map_of (districtMapOf c (Some (snd acc))) di of
                              None \<Rightarrow> [] | Some as \<Rightarrow> as)
                 in if tData lang d Area lang \<noteq> [] then set_add (tData lang d Area lang) old else old)
      else map_of (districtMapOf c (Some (snd acc))) di)"
  by (cases "map_of (snd acc) (tData lang d City lang)")
     (auto simp: vocabStep_def Let_def districtMapOf_def map_has_def update_conv'
           split: option.splits)

lemma vocabStep_cities:
  "map_of (snd (vocabStep lang acc d)) c = None \<longleftrightarrow>
     c \<noteq> tData lang d City lang \<and> map_of (snd acc) c = None"
  by (simp add: vocabStep_def Let_def update_conv')

lemma vocabulary_specialties:
  "set (fst (vocabulary lang ds)) =
     {s. s \<noteq> [] \<and> (\<exists>d\<in>set ds. s = tData lang d Specialty lang)}"
proof (induction ds rule: rev_induct)
  case Nil
  show ?case by (simp add: vocabulary_Nil)
next
  case (snoc d ds)
  then show ?case by (auto simp: vocabulary_snoc vocabStep_specialties)
qed

lemma vocabulary_cities:
  "map_of (snd (vocabulary lang ds)) c = None \<longleftrightarrow> c \<notin> (\<lambda>d. tData lang d City lang) ` set ds"
proof (induction ds rule: rev_induct)
  case Nil
  show ?case by (simp add: vocabulary_Nil)
next
  case (snoc d ds)
  then show ?case by (auto simp: vocabulary_snoc vocabStep_cities)
qed

lemma vocabulary_districts:
  "map_of (districtMapOf c (Some (snd (vocabulary lang ds)))) di = None \<longleftrightarrow>
     \<not> (\<exists>d\<in>set ds. tData lang d City lang = c \<and> tData lang d District lang = di)"
proof (induction ds rule: rev_induct)
  case Nil
  show ?case by (simp add: vocabulary_Nil districtMapOf_def)
next
  case (snoc d ds)
  then show ?case by (auto simp: vocabulary_snoc vocabStep_areas)
qed

lemma vocabulary_areas:
  "map_of (districtMapOf c (Some (snd (vocabulary lang ds)))) di = Some as \<Longrightarrow>
     set as = {a. a \<noteq> [] \<and> (\<exists>d\<in>set ds. tData lang d City lang = c \<and>
                 tData lang d District lang = di \<and> a = tData lang d Area lang)}"
proof (induction ds arbitrary: as rule: rev_induct)
  case Nil
  then show ?case by (simp add: vocabulary_Nil districtMapOf_def)
next
  case (snoc d ds)
  let ?V = "snd (vocabulary lang ds)"
  show ?case
  proof (cases "c = tData lang d City lang \<and> di = tData lang d District lang")
    case False
    with snoc.prems have "map_of (districtMapOf c (Some ?V)) di = Some as"
      by (simp add: vocabulary_snoc vocabStep_areas)
    from snoc.IH [OF this] False show ?thesis by auto
  next
    case True
    show ?thesis
    proof (cases "map_of (districtMapOf c (Some ?V)) di")
      case None
      then have no: "\<not> (\<exists>d\<in>set ds. tData lang d City lang = c \<and> tData lang d District lang = di)"
        by (simp add: vocabulary_districts)
      from None True snoc.prems
      have "as = (if tData lang d Area lang \<noteq> [] then set_add (tData lang d Area lang) [] else [])"
        by (simp add: vocabulary_snoc vocabStep_areas Let_def)
      with no True show ?thesis by (auto simp: set_set_add)
    next
      case (Some old)
      from Some True snoc.prems
      have "as = (if tData lang d Area lang \<noteq> [] then set_add (tData lang d Area lang) old else old)"
        by (simp add: vocabulary_snoc vocabStep_areas Let_def)
      with snoc.IH [OF Some] True show ?thesis by (auto simp: set_set_add)
    qed
  qed
qed

lemma foldl_appendChild_options: "sel_options (foldl appendChild s vs) = sel_options s @ vs"
  by (induction vs arbitrary: s) (simp_all add: appendChild_def)

lemma keys_by_lookup: "fst ` set m = {k. map_of m k \<noteq> None}"
  by (auto simp: map_of_eq_None_iff)

lemma activeLang_nonempty: "activeLang st \<noteq> []"
  by (simp add: activeLang_def)

lemma populateFilters_fields:
  "citiesMap (populateFilters st) = Some (snd (vocabulary (activeLang st) (doctors st))) \<and>
   sel_options (specialtySelect (populateFilters st)) =
     sel_options (specialtySelect st) @ sort (fst (vocabulary (activeLang st) (doctors st))) \<and>
   sel_options (citySelect (populateFilters st)) =
     sel_options (citySelect st) @ sort (map fst (snd (vocabulary (activeLang st) (doctors st))))"
  by (simp add: populateFilters_def Let_def foldl_appendChild_options)

text \<open>
  C2, as stated, fails: \<open>populateFilters\<close> takes each label from \<open>tData\<close>, which falls
  back to \<open>zh-HK\<close>, \<open>zh-CN\<close> and \<open>en\<close>. Under display language \<open>zh-HK\<close> a per-row entity
  that stores its specialty, city, district and area under \<open>en\<close> only still contributes
  all four labels.
\<close>

theorem populateFilters_counterexample:
  "map_of (specialties (hd (normalizePerRow cardio_rows))) ''zh-HK'' = None \<and>
   map_of (cities (hd (normalizePerRow cardio_rows))) ''zh-HK'' = None \<and>
   sel_options (specialtySelect (populateFilters (start_view ''zh-HK'' (normalizePerRow cardio_rows))))
     = [[], ''Cardiology''] \<and>
   sel_options (citySelect (populateFilters (start_view ''zh-HK'' (normalizePerRow cardio_rows))))
     = [[], ''Hong Kong''] \<and>
   citiesMap (populateFilters (start_view ''zh-HK'' (normalizePerRow cardio_rows)))
     = Some [(''Hong Kong'', [(''Central'', [''Admiralty''])])]"
  by code_simp

text \<open>
  C2, amended: for an active language that names no member inherited from
  \<open>Object.prototype\<close>, the vocabulary builder derives every label by label resolution
  (\<open>tData\<close>) in the active language. The specialty options added are exactly the
  non-empty resolved specialties of the entities; the city options added are exactly
  their resolved cities (the empty label included); the districts recorded under a city
  are exactly the resolved districts of the entities resolving to that city; the areas
  recorded under a city and district are exactly the non-empty resolved areas of the
  entities resolving to both. The resolved label of an entity is its value under the
  active language when that is non-empty; otherwise the first non-empty value under
  \<open>zh-HK\<close>, \<open>zh-CN\<close>, \<open>en\<close>, in this order; and it is empty, so that the entity adds
  no specialty or area label, only when none of these is non-empty.
\<close>

theorem populateFilters_resolved_labels:
  assumes "ownKeyOnly (activeLang st)"
  shows
  "set (sel_options (specialtySelect (populateFilters st))) =
     set (sel_options (specialtySelect st)) \<union>
     {s. s \<noteq> [] \<and> (\<exists>d\<in>set (doctors st). s = tData (activeLang st) d Specialty (activeLang st))} \<and>
   set (sel_options (citySelect (populateFilters st))) =
     set (sel_options (citySelect st)) \<union>
     (\<lambda>d. tData (activeLang st) d City (activeLang st)) ` set (doctors st) \<and>
   fst ` set (districtMapOf c (citiesMap (populateFilters st))) =
     {di. \<exists>d\<in>set (doctors st). tData (activeLang st) d City (activeLang st) = c \<and>
            di = tData (activeLang st) d District (activeLang st)} \<and>
   (\<forall>as. map_of (districtMapOf c (citiesMap (populateFilters st))) di = Some as \<longrightarrow>
      set as = {a. a \<noteq> [] \<and> (\<exists>d\<in>set (doctors st).
                  tData (activeLang st) d City (activeLang st) = c \<and>
                  tData (activeLang st) d District (activeLang st) = di \<and>
                  a = tData (activeLang st) d Area (activeLang st))}) \<and>
   (truthy (map_of (plural f e) (activeLang st)) \<longrightarrow>
      tData (activeLang st) e f (activeLang st) = the (map_of (plural f e) (activeLang st))) \<and>
   tData (activeLang st) e f (activeLang st) =
     (if truthy (map_of (plural f e) (activeLang st)) then the (map_of (plural f e) (activeLang st))
      else if truthy (map_of (plural f e) ''zh-HK'') then the (map_of (plural f e) ''zh-HK'')
      else if truthy (map_of (plural f e) ''zh-CN'') then the (map_of (plural f e) ''zh-CN'')
      else if truthy (map_of (plural f e) ''en'') then the (map_of (plural f e) ''en'')
      else []) \<and>
   (tData (activeLang st) e f (activeLang st) = [] \<longleftrightarrow>
      \<not> truthy (map_of (plural f e) (activeLang st)) \<and>
      \<not> truthy (map_of (plural f e) ''zh-HK'') \<and>
      \<not> truthy (map_of (plural f e) ''zh-CN'') \<and>
      \<not> truthy (map_of (plural f e) ''en''))"
proof -
  let ?l = "activeLang st"
  let ?V = "vocabulary ?l (doctors st)"
  note pf = populateFilters_fields [of st]
  have a: "set (sel_options (specialtySelect (populateFilters st))) =
     set (sel_options (specialtySelect st)) \<union>
     {s. s \<noteq> [] \<and> (\<exists>d\<in>set (doctors st). s = tData ?l d Specialty ?l)}"
    using pf by (simp add: vocabulary_specialties)
  have "fst ` set (snd ?V) = (\<lambda>d. tData ?l d City ?l) ` set (doctors st)"
    unfolding keys_by_lookup vocabulary_cities by simp
  then have b: "set (sel_options (citySelect (populateFilters st))) =
     set (sel_options (citySelect st)) \<union> (\<lambda>d. tData ?l d City ?l) ` set (doctors st)"
    using pf by simp
  have c: "fst ` set (districtMapOf c (citiesMap (populateFilters st))) =
     {di. \<exists>d\<in>set (doctors st). tData ?l d City ?l = c \<and> di = tData ?l d District ?l}"
    unfolding keys_by_lookup using pf by (auto simp: vocabulary_districts)
  have d: "\<forall>as. map_of (districtMapOf c (citiesMap (populateFilters st))) di = Some as \<longrightarrow>
      set as = {a. a \<noteq> [] \<and> (\<exists>d\<in>set (doctors st). tData ?l d City ?l = c \<and>
                  tData ?l d District ?l = di \<and> a = tData ?l d Area ?l)}"
    using pf vocabulary_areas [of c ?l "doctors st" di] by simp
  note ch = tData_chain [where lang = "?l" and ls = "?l" and doc = e and f = f,
      OF activeLang_nonempty]
  have nz: "\<And>v. truthy v \<Longrightarrow> the v \<noteq> []"
    by (auto simp: truthy_def split: option.splits)
  have e: "truthy (map_of (plural f e) ?l) \<longrightarrow> tData ?l e f ?l = the (map_of (plural f e) ?l)"
    using ch by simp
  have g: "tData ?l e f ?l = [] \<longleftrightarrow>
      \<not> truthy (map_of (plural f e) ?l) \<and> \<not> truthy (map_of (plural f e) ''zh-HK'') \<and>
      \<not> truthy (map_of (plural f e) ''zh-CN'') \<and> \<not> truthy (map_of (plural f e) ''en'')"
    unfolding ch using nz by auto
  from a b c d e ch g show ?thesis by (intro conjI)
qed

theorem populateFilters_resolved_labels_witness:
  "ownKeyOnly (activeLang (start_view ''zh-HK'' (normalizePerRow cardio_rows))) \<and>
   \<not> truthy (map_of (plural Specialty (hd (normalizePerRow cardio_rows)))
              (activeLang (start_view ''zh-HK'' (normalizePerRow cardio_rows)))) \<and>
   \<not> truthy (map_of (plural Specialty (hd (normalizePerRow cardio_rows))) ''zh-HK'') \<and>
   \<not> truthy (map_of (plural Specialty (hd (normalizePerRow cardio_rows))) ''zh-CN'') \<and>
   truthy (map_of (plural Specialty (hd (normalizePerRow cardio_rows))) ''en'') \<and>
   tData (activeLang (start_view ''zh-HK'' (normalizePerRow cardio_rows)))
     (hd (normalizePerRow cardio_rows)) Specialty
     (activeLang (start_view ''zh-HK'' (normalizePerRow cardio_rows))) = ''Cardiology'' \<and>
   map_of (districtMapOf ''Hong Kong''
             (citiesMap (populateFilters (start_view ''zh-HK'' (normalizePerRow cardio_rows)))))
      ''Central'' = Some [''Admiralty''] \<and>
   sel_options (specialtySelect (populateFilters (start_view ''zh-HK'' (normalizePerRow cardio_rows))))
     = [[], ''Cardiology'']"
proof -
  let ?st = "start_view ''zh-HK'' (normalizePerRow cardio_rows)"
  let ?e = "hd (normalizePerRow cardio_rows)"
  have o: "ownKeyOnly (activeLang ?st)" by code_simp
  have t1: "\<not> truthy (map_of (plural Specialty ?e) (activeLang ?st))" by code_simp
  have t2: "\<not> truthy (map_of (plural Specialty ?e) ''zh-HK'')" by code_simp
  have t3: "\<not> truthy (map_of (plural Specialty ?e) ''zh-CN'')" by code_simp
  have t4: "truthy (map_of (plural Specialty ?e) ''en'')" by code_simp
  have v: "the (map_of (plural Specialty ?e) ''en'') = ''Cardiology''" by code_simp
  have m: "map_of (districtMapOf ''Hong Kong'' (citiesMap (populateFilters ?st))) ''Central''
             = Some [''Admiralty'']"
    by code_simp
  have s: "sel_options (specialtySelect (populateFilters ?st)) = [[], ''Cardiology'']"
    by code_simp
  from populateFilters_resolved_labels [OF o, of "''Hong Kong''" "''Central''" Specialty ?e]
  have "tData (activeLang ?st) ?e Specialty (activeLang ?st) = ''Cardiology''"
    using t1 t2 t3 t4 v by simp
  with o t1 t2 t3 t4 m s show ?thesis by simp
qed

end
